theory Spec2Isabelle
  imports
    Main
    "HOL-Library.Char_ord"
    "HOL-Library.List_Lexorder"
    "HOL-Library.Multiset"
begin

section \<open>JavaScript values and the object store\<close>

text \<open>
  The library is TypeScript. Field values are JavaScript values: primitives are compared by
  value, arrays and objects by reference. A value is therefore a primitive or a reference
  \<open>Ref a\<close> to a cell of the object store; the store is a list of cells and an address is an
  index. Numbers are the integral ones (no NaN, no fractions); Date, function and nested
  model values are outside the model. With that, the strict equality \<open>===\<close> of the source
  is HOL's equality on \<open>jsval\<close>.
\<close>

datatype jsval = Undefined | Null | Bool bool | Num int | Str string | Ref nat

text \<open>An object cell lists its own enumerable properties in \<open>Object.keys\<close> order.\<close>

datatype hobj = HArr "jsval list" | HObj "(string \<times> jsval) list"

type_synonym heap = "hobj list"

text \<open>
  Reading a cell. No run of the program holds a reference beyond the store; such an address
  reads as an empty object.
\<close>

definition cell :: "heap \<Rightarrow> nat \<Rightarrow> hobj" where
  "cell h a = (if a < length h then h ! a else HObj [])"

datatype js_type = T_undefined | T_object | T_boolean | T_number | T_string

fun typeof :: "jsval \<Rightarrow> js_type" where
  "typeof Undefined = T_undefined"
| "typeof Null = T_object"
| "typeof (Bool b) = T_boolean"
| "typeof (Num n) = T_number"
| "typeof (Str s) = T_string"
| "typeof (Ref a) = T_object"

fun isArray :: "heap \<Rightarrow> jsval \<Rightarrow> bool" where
  "isArray h (Ref a) = (case cell h a of HArr xs \<Rightarrow> True | HObj ps \<Rightarrow> False)"
| "isArray h v = False"

text \<open>\<open>xs[i]\<close>: undefined beyond the end.\<close>

definition item_at :: "jsval list \<Rightarrow> nat \<Rightarrow> jsval" where
  "item_at xs i = (if i < length xs then xs ! i else Undefined)"

text \<open>The elements of the array at an address (none when the cell is not an array).\<close>

definition elems :: "heap \<Rightarrow> nat \<Rightarrow> jsval list" where
  "elems h a = (case cell h a of HArr xs \<Rightarrow> xs | HObj ps \<Rightarrow> [])"

text \<open>Truthiness (\<open>ToBoolean\<close>), as used by \<open>if (v)\<close>, \<open>!v\<close>, \<open>&&\<close> and \<open>Array.every\<close>.\<close>

fun truthy :: "jsval \<Rightarrow> bool" where
  "truthy Undefined = False"
| "truthy Null = False"
| "truthy (Bool b) = b"
| "truthy (Num n) = (n \<noteq> 0)"
| "truthy (Str s) = (s \<noteq> [])"
| "truthy (Ref a) = True"

subsection \<open>Plain objects as association lists\<close>

text \<open>
  \<open>o[k]\<close> reads \<open>undefined\<close> for a missing key, \<open>o[k] = v\<close> overwrites in place or appends,
  \<open>delete o[k]\<close> removes the key. Names inherited from \<open>Object.prototype\<close> are not modelled.
\<close>

definition obj_get :: "(string \<times> jsval) list \<Rightarrow> string \<Rightarrow> jsval" where
  "obj_get ob k = (case map_of ob k of None \<Rightarrow> Undefined | Some v \<Rightarrow> v)"

primrec obj_set :: "string \<Rightarrow> 'v \<Rightarrow> (string \<times> 'v) list \<Rightarrow> (string \<times> 'v) list" where
  "obj_set k v [] = [(k, v)]"
| "obj_set k v (p # ps) = (if fst p = k then (k, v) # ps else p # obj_set k v ps)"

definition obj_delete :: "string \<Rightarrow> (string \<times> 'v) list \<Rightarrow> (string \<times> 'v) list" where
  "obj_delete k ob = filter (\<lambda>p. fst p \<noteq> k) ob"

subsection \<open>Strings of numbers, property reads, the default sort\<close>

text \<open>
  A number is modelled by its value when that is an integer; \<open>show_nat\<close> gives the decimal
  digits of a natural number, which is how an array index reads as a property key.
\<close>

definition digit :: "nat \<Rightarrow> char" where
  "digit d = char_of (48 + d)"

fun show_nat :: "nat \<Rightarrow> string" where
  "show_nat n = (if n < 10 then [digit n] else show_nat (n div 10) @ [digit (n mod 10)])"

declare show_nat.simps [simp del]

text \<open>
  \<open>Number.isSafeInteger\<close>: the integers between \<open>-(2^53 - 1)\<close> and \<open>2^53 - 1\<close>. Each of them
  is a number of its own, and \<open>ToString\<close> prints it in decimal digits. Beyond them the
  digits that \<open>ToString\<close> prints are those of the nearest floating-point number, in exponent
  form from \<open>1e+21\<close> on; such numbers are outside this model, which gives them no string.
\<close>

definition isSafeInteger :: "int \<Rightarrow> bool" where
  "isSafeInteger i = (- 9007199254740991 \<le> i \<and> i \<le> 9007199254740991)"

definition Number_toString :: "int \<Rightarrow> string option" where
  "Number_toString i =
     (if isSafeInteger i
      then Some (if i < 0 then CHR ''-'' # show_nat (nat (- i)) else show_nat (nat i))
      else None)"

text \<open>The array index that a property key denotes, when it is one below \<open>n\<close>.\<close>

definition index_of :: "string \<Rightarrow> nat \<Rightarrow> nat option" where
  "index_of key n = find (\<lambda>i. show_nat i = key) [0..<n]"

text \<open>
  \<open>v?.[key]\<close>, and \<open>v[key]\<close> on a value that is not null or undefined: own properties, array
  and string indices, \<open>length\<close>.
\<close>

fun get_member :: "heap \<Rightarrow> jsval \<Rightarrow> string \<Rightarrow> jsval" where
  "get_member h (Ref a) key =
     (case cell h a of
        HObj ps \<Rightarrow> obj_get ps key
      | HArr xs \<Rightarrow>
          if key = ''length'' then Num (int (length xs))
          else (case index_of key (length xs) of None \<Rightarrow> Undefined | Some i \<Rightarrow> xs ! i))"
| "get_member h (Str s) key =
     (if key = ''length'' then Num (int (length s))
      else (case index_of key (length s) of None \<Rightarrow> Undefined | Some i \<Rightarrow> Str [s ! i]))"
| "get_member h v key = Undefined"

text \<open>\<open>Object.keys(v)\<close>; it throws a \<open>TypeError\<close> (here \<open>None\<close>) on null and undefined.\<close>

fun own_keys :: "heap \<Rightarrow> jsval \<Rightarrow> string list option" where
  "own_keys h Undefined = None"
| "own_keys h Null = None"
| "own_keys h (Ref a) =
     Some (case cell h a of HObj ps \<Rightarrow> map fst ps | HArr xs \<Rightarrow> map show_nat [0..<length xs])"
| "own_keys h (Str s) = Some (map show_nat [0..<length s])"
| "own_keys h v = Some []"

text \<open>
  \<open>ToString\<close>, which the default sort applies to the elements it compares. An array prints
  its elements joined by commas (null and undefined as the empty string), any other object
  as \<open>[object Object]\<close>. The first argument bounds the nesting depth that is followed;
  \<open>None\<close> says that the bound was too small, or that a number is not a safe integer.
\<close>

fun join_commas :: "string option list \<Rightarrow> string option" where
  "join_commas [] = Some []"
| "join_commas [x] = x"
| "join_commas (x # y # ys) =
     (case x of
        None \<Rightarrow> None
      | Some s \<Rightarrow> (case join_commas (y # ys) of None \<Rightarrow> None | Some r \<Rightarrow> Some (s @ '','' @ r)))"

fun to_string :: "nat \<Rightarrow> heap \<Rightarrow> jsval \<Rightarrow> string option" where
  "to_string n h Undefined = Some ''undefined''"
| "to_string n h Null = Some ''null''"
| "to_string n h (Bool b) = Some (if b then ''true'' else ''false'')"
| "to_string n h (Num i) = Number_toString i"
| "to_string n h (Str s) = Some s"
| "to_string 0 h (Ref a) = None"
| "to_string (Suc n) h (Ref a) =
     (case cell h a of
        HObj ps \<Rightarrow> Some ''[object Object]''
      | HArr xs \<Rightarrow>
          join_commas
            (map (\<lambda>x. if x = Undefined \<or> x = Null then Some [] else to_string n h x) xs))"

text \<open>
  \<open>Array.prototype.sort()\<close> without a comparator: undefined elements go last, the others
  are ordered by their strings (code-unit order), equal strings keeping their order.
\<close>

definition js_sort :: "nat \<Rightarrow> heap \<Rightarrow> jsval list \<Rightarrow> jsval list option" where
  "js_sort n h xs =
     (let defined = filter (\<lambda>x. x \<noteq> Undefined) xs;
          undefineds = filter (\<lambda>x. x = Undefined) xs;
          keys = map (to_string n h) defined
      in if None \<in> set keys then None
         else Some (map snd (sort_key fst (zip (map the keys) defined)) @ undefineds))"




section \<open>Errors\<close>

text \<open>
  \<open>ErrorCode\<close> of the library, with the two parameters every field error carries. A
  \<open>TypeError\<close> is the JavaScript runtime's; \<open>UserError\<close> stands for an exception thrown by a
  user callback.
\<close>

datatype error_code =
    FIELD_NOT_READABLE | FIELD_NOT_INITIALIZED | FIELD_NOT_WRITABLE | FIELD_SET_ERROR
  | FIELD_UNSET_ERROR | FIELD_NO_GENERATOR | FIELD_ALREADY_GENERATED
  | FIELD_CANNOT_GENERATE_EXISTING | FIELD_NOT_NULLABLE | FIELD_VALIDATOR_FAILED
  | FIELD_VALIDATORS_FAILED | ASSOCIATION_INVALID | ASSOCIATION_VALIDATOR_NOT_FOUND
  | ID_FIELD_CANNOT_BE_EXCLUDED | MODEL_FIELD_VALIDATION_FAILED

text \<open>One entry of a \<open>VerveErrorList\<close>: code, field, model, validator name (or empty).\<close>

record list_error =
  e_code :: error_code
  e_field :: string
  e_model :: string
  e_validator :: string

datatype error =
    VerveError error_code string string
  | VerveErrors error_code string "list_error list"
  | TypeError
  | UserError

section \<open>Fields\<close>

datatype callres = Returns jsval | Throws

text \<open>
  What a user callback can observe of the model instance it is handed: whether the instance
  is new, its own data properties, and the object store.
\<close>

record instance_view =
  v_isNew :: bool
  v_own :: "(string \<times> jsval) list"
  v_heap :: heap

text \<open>\<open>FieldAccessRule\<close>: absent, a boolean, or a predicate of (context, model, value).\<close>

datatype access_rule =
    RuleAbsent
  | RuleBool bool
  | RuleFn "jsval \<Rightarrow> instance_view \<Rightarrow> jsval \<Rightarrow> callres"

text \<open>A validator, already bound to its model by \<open>bindValidators\<close>; \<open>__lazy\<close> is the tag.\<close>

record validator =
  vd_name :: string
  vd_lazy :: bool
  vd_fn :: "instance_view \<Rightarrow> jsval \<Rightarrow> callres"

text \<open>A generator takes no argument; it may allocate the value it returns.\<close>

record generator =
  gn_lazy :: bool
  gn_fn :: "heap \<Rightarrow> callres \<times> heap"

record field_options =
  nullable :: bool
  readable :: access_rule
  writable :: access_rule
  default_value :: jsval
  compute :: "(instance_view \<Rightarrow> callres) option"
  generator :: "generator option"
  validators :: "validator list"
  associate :: "(string \<times> string) option"

datatype field_kind =
    IdField | BoolField | TextField | NumberField | DateField | ListField | RecordField
  | OptionField

record field =
  kind :: field_kind
  metadata_model :: string
  metadata_name :: string
  options :: field_options

section \<open>The model instance\<close>

datatype initializer_mode = Make | From

text \<open>\<open>ModelChangeLog\<close>; the timestamp (wall-clock time) is left out.\<close>

record change =
  c_field :: string
  c_currentValue :: jsval
  c_previousValue :: jsval

text \<open>An own data property of the instance; every one the library defines is configurable.\<close>

record own_property =
  p_value :: jsval
  p_writable :: bool
  p_enumerable :: bool

text \<open>
  The private slots of \<open>Model\<close>, the instance's own data properties, the context that
  \<open>getContext()\<close> resolves to, and the object store. The fields map is keyed by field name
  (\<open>FieldInitializer\<close>) and kept in \<open>Object.entries\<close> order; a bound field is the pair of its
  key and its \<open>Field\<close>.
\<close>

record model =
  initializer :: initializer_mode
  fieldMap :: "(string \<times> field) list"
  state :: "(string \<times> jsval) list"
  initialState :: "(string \<times> jsval) list"
  changeLog :: "change list"
  props :: "(string \<times> own_property) list"
  ctx :: jsval
  heap :: heap

definition view :: "model \<Rightarrow> instance_view" where
  "view m = \<lparr> v_isNew = (initializer m = Make),
              v_own = map (\<lambda>(k, p). (k, p_value p)) (props m),
              v_heap = heap m \<rparr>"

definition isNew :: "model \<Rightarrow> bool" where
  "isNew m = (initializer m = Make)"

definition isExisting :: "model \<Rightarrow> bool" where
  "isExisting m = (initializer m = From)"

subsection \<open>The change log\<close>

text \<open>\<open>Model[MODEL_CHANGE_LOG]\<close>: an entry whose current value is undefined erases the field's log.\<close>

definition MODEL_CHANGE_LOG :: "change \<Rightarrow> model \<Rightarrow> model" where
  "MODEL_CHANGE_LOG ch m =
     (if c_currentValue ch = Undefined
      then m\<lparr>changeLog := filter (\<lambda>l. c_field l \<noteq> c_field ch) (changeLog m)\<rparr>
      else m\<lparr>changeLog := changeLog m @ [ch]\<rparr>)"

definition getChangeLog :: "model \<Rightarrow> change list" where
  "getChangeLog m = rev (changeLog m)"

text \<open>The loop of \<open>getChanges\<close>, over the remaining log entries, with its two accumulators.\<close>

fun getChanges_loop ::
  "(string \<times> jsval) list \<Rightarrow> change list \<Rightarrow> (string \<times> jsval) list \<Rightarrow> string list
    \<Rightarrow> (string \<times> jsval) list" where
  "getChanges_loop ist [] changes changedFields = changes"
| "getChanges_loop ist (l # ls) changes changedFields =
     (if c_field l \<in> set changedFields then getChanges_loop ist ls changes changedFields
      else if obj_get ist (c_field l) = c_currentValue l
      then getChanges_loop ist ls changes (changedFields @ [c_field l])
      else getChanges_loop ist ls (obj_set (c_field l) (c_currentValue l) changes)
             (changedFields @ [c_field l]))"

definition getChanges :: "model \<Rightarrow> (string \<times> jsval) list" where
  "getChanges m = getChanges_loop (initialState m) (getChangeLog m) [] []"

subsection \<open>Field operations\<close>

definition unsafeGet :: "string \<Rightarrow> model \<Rightarrow> jsval" where
  "unsafeGet key m = obj_get (state m) key"

text \<open>
  \<open>isReadable\<close> and \<open>isWritable\<close>: a predicate that throws counts as a denial. Every caller
  uses the result as a condition, so the result is given as its truthiness.
\<close>

definition apply_rule :: "access_rule \<Rightarrow> string \<Rightarrow> model \<Rightarrow> bool" where
  "apply_rule r key m =
     (case r of
        RuleFn g \<Rightarrow>
          (case g (ctx m) (view m) (unsafeGet key m) of
             Returns b \<Rightarrow> truthy b
           | Throws \<Rightarrow> False)
      | RuleBool b \<Rightarrow> b
      | RuleAbsent \<Rightarrow> True)"

definition isReadable :: "field \<Rightarrow> string \<Rightarrow> model \<Rightarrow> bool" where
  "isReadable f key m = apply_rule (readable (options f)) key m"

definition isWritable :: "field \<Rightarrow> string \<Rightarrow> model \<Rightarrow> bool" where
  "isWritable f key m = apply_rule (writable (options f)) key m"

text \<open>
  \<open>Object.assign(model, {[key]: value})\<close>: writes the own property, creating it writable and
  enumerable when missing; a non-writable own property makes the assignment throw.
\<close>

definition assign_prop :: "string \<Rightarrow> jsval \<Rightarrow> (string \<times> own_property) list \<Rightarrow> (string \<times> own_property) list option" where
  "assign_prop key v ps =
     (case map_of ps key of
        None \<Rightarrow> Some (obj_set key \<lparr>p_value = v, p_writable = True, p_enumerable = True\<rparr> ps)
      | Some p \<Rightarrow> if p_writable p then Some (obj_set key (p\<lparr>p_value := v\<rparr>) ps) else None)"

text \<open>
  \<open>Field.set\<close>. The two guards come first; the body runs in a \<open>try\<close> whose failure is
  reported as \<open>FIELD_SET_ERROR\<close>, after the log entry and the state were already written.
\<close>

definition Field_set :: "field \<Rightarrow> string \<Rightarrow> jsval \<Rightarrow> model \<Rightarrow> (error + unit) \<times> model" where
  "Field_set f key v m =
     (if \<not> isWritable f key m then (Inl (VerveError FIELD_NOT_WRITABLE key (metadata_model f)), m)
      else if v = Null \<and> \<not> nullable (options f)
      then (Inl (VerveError FIELD_NOT_NULLABLE key (metadata_model f)), m)
      else
        let m1 = MODEL_CHANGE_LOG
                   \<lparr>c_field = key, c_currentValue = v, c_previousValue = obj_get (state m) key\<rparr> m;
            m2 = m1\<lparr>state := obj_set key v (state m1)\<rparr>
        in (case assign_prop key v (props m2) of
              None \<Rightarrow> (Inl (VerveError FIELD_SET_ERROR key (metadata_model f)), m2)
            | Some ps \<Rightarrow> (Inr (), m2\<lparr>props := ps\<rparr>)))"

text \<open>
  \<open>Field.unset\<close>. Both deletions succeed (the properties are configurable), so the
  \<open>catch\<close> branch with \<open>FIELD_UNSET_ERROR\<close> is never taken.
\<close>

definition Field_unset :: "field \<Rightarrow> string \<Rightarrow> model \<Rightarrow> (error + unit) \<times> model" where
  "Field_unset f key m =
     (let m1 = MODEL_CHANGE_LOG
                 \<lparr>c_field = key, c_currentValue = Undefined, c_previousValue = obj_get (state m) key\<rparr> m
      in (Inr (), m1\<lparr>state := obj_delete key (state m1), props := obj_delete key (props m1)\<rparr>))"

subsection \<open>Model operations\<close>

text \<open>
  \<open>Model.set(data)\<close>: the entries of \<open>data\<close> in order; an undefined value is skipped; a key
  that names no field makes \<open>fields[key].set\<close> a \<open>TypeError\<close>. A failure stops the loop and
  keeps what was already set.
\<close>

fun Model_set :: "(string \<times> jsval) list \<Rightarrow> model \<Rightarrow> (error + unit) \<times> model" where
  "Model_set [] m = (Inr (), m)"
| "Model_set ((key, v) # rest) m =
     (if v = Undefined then Model_set rest m
      else (case map_of (fieldMap m) key of
              None \<Rightarrow> (Inl TypeError, m)
            | Some f \<Rightarrow>
                (case Field_set f key v m of
                   (Inl e, m') \<Rightarrow> (Inl e, m')
                 | (Inr u, m') \<Rightarrow> Model_set rest m')))"

fun Model_unset :: "string list \<Rightarrow> model \<Rightarrow> (error + unit) \<times> model" where
  "Model_unset [] m = (Inr (), m)"
| "Model_unset (key # rest) m =
     (case map_of (fieldMap m) key of
        None \<Rightarrow> (Inl TypeError, m)
      | Some f \<Rightarrow>
          (case Field_unset f key m of
             (Inl e, m') \<Rightarrow> (Inl e, m')
           | (Inr u, m') \<Rightarrow> Model_unset rest m'))"

text \<open>
  \<open>Field.validate\<close>: nothing to do for an undefined value; otherwise every validator runs
  and each result other than \<open>true\<close> adds an entry. An exception of a validator propagates.
\<close>

definition validator_name :: "validator \<Rightarrow> string" where
  "validator_name vd = (if vd_name vd = [] then ''anonymous'' else vd_name vd)"

fun validate_loop ::
  "validator list \<Rightarrow> instance_view \<Rightarrow> jsval \<Rightarrow> string \<Rightarrow> string \<Rightarrow> error + list_error list" where
  "validate_loop [] vw v key mdl = Inr []"
| "validate_loop (vd # vds) vw v key mdl =
     (case vd_fn vd vw v of
        Throws \<Rightarrow> Inl UserError
      | Returns r \<Rightarrow>
          (case validate_loop vds vw v key mdl of
             Inl e \<Rightarrow> Inl e
           | Inr es \<Rightarrow>
               Inr ((if r \<noteq> Bool True
                     then [\<lparr>e_code = FIELD_VALIDATOR_FAILED, e_field = key, e_model = mdl,
                            e_validator = validator_name vd\<rparr>]
                     else []) @ es)))"

definition Field_validate :: "field \<Rightarrow> string \<Rightarrow> model \<Rightarrow> error + list_error list" where
  "Field_validate f key m =
     (if unsafeGet key m = Undefined then Inr []
      else validate_loop (validators (options f)) (view m) (unsafeGet key m) key (metadata_model f))"

text \<open>\<open>Field.get\<close>: readability, then initialisation, then the validators.\<close>

definition Field_get :: "field \<Rightarrow> string \<Rightarrow> model \<Rightarrow> error + jsval" where
  "Field_get f key m =
     (if \<not> isReadable f key m then Inl (VerveError FIELD_NOT_READABLE key (metadata_model f))
      else if unsafeGet key m = Undefined
      then Inl (VerveError FIELD_NOT_INITIALIZED key (metadata_model f))
      else (case Field_validate f key m of
              Inl e \<Rightarrow> Inl e
            | Inr es \<Rightarrow>
                if es \<noteq> [] then Inl (VerveErrors FIELD_VALIDATORS_FAILED (metadata_model f) es)
                else Inr (unsafeGet key m)))"

text \<open>
  \<open>Field.isValid\<close>: \<open>validators.every((validator) => validator(value))\<close>. \<open>every\<close> stops at
  the first result that is not truthy.
\<close>

fun every_validator :: "validator list \<Rightarrow> instance_view \<Rightarrow> jsval \<Rightarrow> error + bool" where
  "every_validator [] vw v = Inr True"
| "every_validator (vd # vds) vw v =
     (case vd_fn vd vw v of
        Throws \<Rightarrow> Inl UserError
      | Returns r \<Rightarrow> if truthy r then every_validator vds vw v else Inr False)"

definition Field_isValid :: "field \<Rightarrow> string \<Rightarrow> model \<Rightarrow> error + bool" where
  "Field_isValid f key m = every_validator (validators (options f)) (view m) (unsafeGet key m)"

text \<open>\<open>Field.generate\<close>: three guards, then the generator's value goes through \<open>set\<close>.\<close>

definition Field_generate :: "field \<Rightarrow> string \<Rightarrow> model \<Rightarrow> (error + unit) \<times> model" where
  "Field_generate f key m =
     (case generator (options f) of
        None \<Rightarrow> (Inl (VerveError FIELD_NO_GENERATOR key (metadata_model f)), m)
      | Some g \<Rightarrow>
          if truthy (unsafeGet key m)
          then (Inl (VerveError FIELD_ALREADY_GENERATED key (metadata_model f)), m)
          else if isExisting m
          then (Inl (VerveError FIELD_CANNOT_GENERATE_EXISTING key (metadata_model f)), m)
          else (case gn_fn g (heap m) of
                  (Throws, h) \<Rightarrow> (Inl UserError, m\<lparr>heap := h\<rparr>)
                | (Returns v, h) \<Rightarrow> Field_set f key v (m\<lparr>heap := h\<rparr>)))"

text \<open>
  \<open>Model.generate(keys?)\<close>: every field (of \<open>keys\<close>, when given) that has a generator and
  whose value is undefined is generated.
\<close>

fun generate_loop :: "(string \<times> field) list \<Rightarrow> string list option \<Rightarrow> model \<Rightarrow> (error + unit) \<times> model" where
  "generate_loop [] keys m = (Inr (), m)"
| "generate_loop ((fieldName, f) # rest) keys m =
     (if (case keys of None \<Rightarrow> False | Some ks \<Rightarrow> metadata_name f \<notin> set ks)
      then generate_loop rest keys m
      else if generator (options f) \<noteq> None \<and> unsafeGet fieldName m = Undefined
      then (case Field_generate f fieldName m of
              (Inl e, m') \<Rightarrow> (Inl e, m')
            | (Inr u, m') \<Rightarrow> generate_loop rest keys m')
      else generate_loop rest keys m)"

definition Model_generate :: "string list option \<Rightarrow> model \<Rightarrow> (error + unit) \<times> model" where
  "Model_generate keys m = generate_loop (fieldMap m) keys m"

text \<open>
  \<open>Model.only(keys)\<close> and \<open>Model.except(keys)\<close>: one pass over the entries of the fields map;
  \<open>field instanceof IdField\<close> is the test on the field's class.
\<close>

fun only_loop :: "(string \<times> field) list \<Rightarrow> string list \<Rightarrow> model \<Rightarrow> (error + unit) \<times> model" where
  "only_loop [] keys m = (Inr (), m)"
| "only_loop ((fieldName, f) # rest) keys m =
     (if fieldName \<in> set keys then only_loop rest keys m
      else if kind f = IdField then only_loop rest keys m
      else (case Field_unset f fieldName m of
              (Inl e, m') \<Rightarrow> (Inl e, m')
            | (Inr u, m') \<Rightarrow> only_loop rest keys m'))"

definition Model_only :: "string list \<Rightarrow> model \<Rightarrow> (error + unit) \<times> model" where
  "Model_only keys m = only_loop (fieldMap m) keys m"

fun except_loop :: "(string \<times> field) list \<Rightarrow> string list \<Rightarrow> model \<Rightarrow> (error + unit) \<times> model" where
  "except_loop [] keys m = (Inr (), m)"
| "except_loop ((fieldName, f) # rest) keys m =
     (if fieldName \<notin> set keys then except_loop rest keys m
      else if kind f = IdField then (Inl (VerveError ID_FIELD_CANNOT_BE_EXCLUDED [] []), m)
      else (case Field_unset f fieldName m of
              (Inl e, m') \<Rightarrow> (Inl e, m')
            | (Inr u, m') \<Rightarrow> except_loop rest keys m'))"

definition Model_except :: "string list \<Rightarrow> model \<Rightarrow> (error + unit) \<times> model" where
  "Model_except keys m = except_loop (fieldMap m) keys m"

subsection \<open>Deep equality: \<open>isObjectEqual\<close>, \<open>isArrayEqual\<close>, \<open>Field.is\<close>\<close>

text \<open>
  Both functions recurse through the values they compare and sort arrays in place, so they
  take the store and return it. The first argument bounds the depth of the recursion; the
  result \<open>None\<close> says the bound was too small. \<open>find_diff\<close> is the callback loop of
  \<open>aKeys.find\<close> (its result: a differing key was found), \<open>every_item\<close> that of
  \<open>sortedA.every\<close>; both read the compared objects from the current store.
\<close>

text \<open>The address behind a reference (only asked of references).\<close>

fun addr_of :: "jsval \<Rightarrow> nat" where
  "addr_of (Ref a) = a"
| "addr_of v = 0"

text \<open>Sequencing: a failure or an exhausted bound ends the comparison, a result goes on.\<close>

definition then_bool ::
  "((error + bool) \<times> heap) option \<Rightarrow> (bool \<Rightarrow> heap \<Rightarrow> ((error + bool) \<times> heap) option)
    \<Rightarrow> ((error + bool) \<times> heap) option" where
  "then_bool r k =
     (case r of
        None \<Rightarrow> None
      | Some (Inl e, h') \<Rightarrow> Some (Inl e, h')
      | Some (Inr eq, h') \<Rightarrow> k eq h')"

lemma then_bool_cong [fundef_cong]:
  "r = r' \<Longrightarrow> (\<And>eq h'. r' = Some (Inr eq, h') \<Longrightarrow> k eq h' = k' eq h') \<Longrightarrow> then_bool r k = then_bool r' k'"
  by (auto simp: then_bool_def split: option.splits sum.splits prod.splits)

function isObjectEqual :: "nat \<Rightarrow> heap \<Rightarrow> jsval \<Rightarrow> jsval \<Rightarrow> ((error + bool) \<times> heap) option"
  and find_diff :: "nat \<Rightarrow> heap \<Rightarrow> jsval \<Rightarrow> jsval \<Rightarrow> string list \<Rightarrow> ((error + bool) \<times> heap) option"
  and isArrayEqual :: "nat \<Rightarrow> heap \<Rightarrow> jsval \<Rightarrow> jsval \<Rightarrow> ((error + bool) \<times> heap) option"
  and every_item :: "nat \<Rightarrow> heap \<Rightarrow> jsval \<Rightarrow> jsval \<Rightarrow> nat list \<Rightarrow> ((error + bool) \<times> heap) option"
where
  "isObjectEqual 0 h a b = None"
| "isObjectEqual (Suc n) h a b =
     (if typeof a \<noteq> T_object \<or> typeof b \<noteq> T_object then Some (Inr (a = b), h)
      else (case own_keys h a of
              None \<Rightarrow> Some (Inl TypeError, h)
            | Some aKeys \<Rightarrow>
                (case own_keys h b of
                   None \<Rightarrow> Some (Inl TypeError, h)
                 | Some bKeys \<Rightarrow>
                     if length aKeys \<noteq> length bKeys then Some (Inr False, h)
                     else then_bool (find_diff n h a b aKeys)
                            (\<lambda>foundDiff h'. Some (Inr (\<not> foundDiff), h')))))"
| "find_diff n h a b [] = Some (Inr False, h)"
| "find_diff n h a b (key # keys) =
     (if typeof (get_member h a key) \<noteq> typeof (get_member h b key) then Some (Inr True, h)
      else if isArray h (get_member h a key) \<and> isArray h (get_member h b key)
      then then_bool (isArrayEqual n h (get_member h a key) (get_member h b key))
             (\<lambda>eq h'. if \<not> eq then Some (Inr True, h') else find_diff n h' a b keys)
      else if typeof (get_member h a key) = T_object \<and> typeof (get_member h b key) = T_object
      then then_bool (isObjectEqual n h (get_member h a key) (get_member h b key))
             (\<lambda>eq h'. if \<not> eq then Some (Inr True, h') else find_diff n h' a b keys)
      else if get_member h a key \<noteq> get_member h b key then Some (Inr True, h)
      else find_diff n h a b keys)"
| "isArrayEqual 0 h a b = None"
| "isArrayEqual (Suc n) h a b =
     (if length (elems h (addr_of a)) \<noteq> length (elems h (addr_of b)) then Some (Inr False, h)
      else (case js_sort n h (elems h (addr_of a)) of
              None \<Rightarrow> None
            | Some sortedA \<Rightarrow>
                (case js_sort n (h[addr_of a := HArr sortedA])
                        (elems (h[addr_of a := HArr sortedA]) (addr_of b)) of
                   None \<Rightarrow> None
                 | Some sortedB \<Rightarrow>
                     every_item n (h[addr_of a := HArr sortedA, addr_of b := HArr sortedB]) a b
                       [0..<length sortedA])))"
| "every_item n h a b [] = Some (Inr True, h)"
| "every_item n h a b (i # is) =
     (if typeof (item_at (elems h (addr_of a)) i) \<noteq> typeof (item_at (elems h (addr_of b)) i)
      then Some (Inr False, h)
      else if typeof (item_at (elems h (addr_of a)) i) = T_object
              \<and> typeof (item_at (elems h (addr_of b)) i) = T_object
      then then_bool (isObjectEqual n h (item_at (elems h (addr_of a)) i) (item_at (elems h (addr_of b)) i))
             (\<lambda>eq h'. if eq then every_item n h' a b is else Some (Inr False, h'))
      else if isArray h (item_at (elems h (addr_of a)) i) \<and> isArray h (item_at (elems h (addr_of b)) i)
      then then_bool (isArrayEqual n h (item_at (elems h (addr_of a)) i) (item_at (elems h (addr_of b)) i))
             (\<lambda>eq h'. if eq then every_item n h' a b is else Some (Inr False, h'))
      else if item_at (elems h (addr_of a)) i = item_at (elems h (addr_of b)) i
      then every_item n h a b is
      else Some (Inr False, h))"
  by pat_completeness auto
termination
  by (relation
        "inv_image (less_than <*lex*> less_than <*lex*> less_than)
           (case_sum
              (case_sum (\<lambda>(n, h, a, b). (n, 0::nat, 0::nat))
                        (\<lambda>(n, h, a, b, keys). (n, 1, length keys)))
              (case_sum (\<lambda>(n, h, x, y). (n, 0, 0))
                        (\<lambda>(n, h, x, y, is). (n, 1, length is))))")
     auto




subsection \<open>Objects compared key for key\<close>






section \<open>The association registry\<close>

record association =
  a_sourceModel :: string
  a_sourcePath :: string
  a_fieldName :: string
  a_targetModel :: string
  a_targetPath :: string

text \<open>
  The two static tables of \<open>AssociationRegistry\<close>. A registered validator is a closure
  over the two paths of its association, so the table keeps the paths.
\<close>

record registry =
  associations :: "association list"
  reg_validators :: "(string \<times> string \<times> string) list"

definition registry_key :: "string \<Rightarrow> string \<Rightarrow> string" where
  "registry_key sm fn = sm @ ''.'' @ fn"

definition register :: "association \<Rightarrow> registry \<Rightarrow> registry" where
  "register a r =
     r\<lparr> associations := associations r @ [a],
        reg_validators :=
          obj_set (registry_key (a_sourceModel a) (a_fieldName a)) (a_sourcePath a, a_targetPath a)
            (reg_validators r) \<rparr>"

definition getValidator :: "registry \<Rightarrow> string \<Rightarrow> string \<Rightarrow> (string \<times> string) option" where
  "getValidator r sm fn = map_of (reg_validators r) (registry_key sm fn)"

text \<open>\<open>path.split('.')\<close>.\<close>

fun split_dot :: "string \<Rightarrow> string list" where
  "split_dot [] = [[]]"
| "split_dot (c # cs) =
     (if c = CHR ''.'' then [] # split_dot cs
      else (case split_dot cs of [] \<Rightarrow> [[c]] | w # ws \<Rightarrow> (c # w) # ws))"

text \<open>
  \<open>resolvePath(obj, path)\<close> on a value, and on the model instance, whose first segment
  reads an own property of the instance.
\<close>

definition resolvePath :: "heap \<Rightarrow> jsval \<Rightarrow> string \<Rightarrow> jsval" where
  "resolvePath h v path = foldl (get_member h) v (split_dot path)"

definition instance_member :: "model \<Rightarrow> string \<Rightarrow> jsval" where
  "instance_member m key = (case map_of (props m) key of None \<Rightarrow> Undefined | Some p \<Rightarrow> p_value p)"

definition resolvePath_instance :: "model \<Rightarrow> string \<Rightarrow> jsval" where
  "resolvePath_instance m path =
     (case split_dot path of
        [] \<Rightarrow> Undefined
      | k # ks \<Rightarrow> foldl (get_member (heap m)) (instance_member m k) ks)"

text \<open>The validator that \<open>register\<close> builds: both paths resolve to strictly equal values.\<close>

definition association_validator :: "string \<times> string \<Rightarrow> model \<Rightarrow> jsval \<Rightarrow> bool" where
  "association_validator paths m target =
     (resolvePath_instance m (fst paths) = resolvePath (heap m) target (snd paths))"

section \<open>Construction: the initializers, \<open>make\<close> and \<open>from\<close>\<close>

text \<open>
  \<open>FieldInitializer.initialize\<close>: one bound field per schema entry, an existing key is
  kept. A schema entry is taken after \<open>toField\<close>, as the field it builds.
\<close>

fun FieldInitializer_initialize :: "(string \<times> field) list \<Rightarrow> model \<Rightarrow> model" where
  "FieldInitializer_initialize [] m = m"
| "FieldInitializer_initialize ((name, f) # rest) m =
     (if map_of (fieldMap m) name \<noteq> None then FieldInitializer_initialize rest m
      else FieldInitializer_initialize rest (m\<lparr>fieldMap := fieldMap m @ [(name, f)]\<rparr>))"

text \<open>\<open>Field.getEagerGenerator\<close> and \<open>Field.getEagerValidators\<close>.\<close>

definition getEagerGenerator :: "field_options \<Rightarrow> generator option" where
  "getEagerGenerator opts =
     (case generator opts of
        None \<Rightarrow> None
      | Some g \<Rightarrow> if \<not> gn_lazy g then Some g else None)"

definition getEagerValidators :: "field_options \<Rightarrow> validator list" where
  "getEagerValidators opts = filter (\<lambda>vd. \<not> vd_lazy vd) (validators opts)"

text \<open>\<open>ValueInitializer.getInitialValue\<close>; the default is tested with \<open>if (options.default)\<close>.\<close>

definition getInitialValue :: "jsval \<Rightarrow> field_options \<Rightarrow> bool \<Rightarrow> heap \<Rightarrow> callres \<times> heap" where
  "getInitialValue v opts isHydrating h =
     (if v \<noteq> Undefined then (Returns v, h)
      else if isHydrating then (Returns Undefined, h)
      else if truthy (default_value opts) then (Returns (default_value opts), h)
      else (case getEagerGenerator opts of
              Some g \<Rightarrow> gn_fn g h
            | None \<Rightarrow> (Returns Undefined, h)))"

text \<open>
  \<open>ValueInitializer.initialize\<close>: over the entries of the fields map; the name is the key
  without its first \<open>$\<close>; a computed field is skipped, an undefined initial value too.
\<close>

fun value_loop ::
  "(string \<times> field) list \<Rightarrow> (string \<times> jsval) list \<Rightarrow> bool \<Rightarrow> model \<Rightarrow> (error + unit) \<times> model" where
  "value_loop [] data isHydrating m = (Inr (), m)"
| "value_loop ((fieldKey, f) # rest) data isHydrating m =
     (if compute (options f) \<noteq> None then value_loop rest data isHydrating m
      else
        (case getInitialValue (obj_get data (remove1 CHR ''$'' fieldKey)) (options f) isHydrating
                (heap m) of
           (Throws, h) \<Rightarrow> (Inl UserError, m\<lparr>heap := h\<rparr>)
         | (Returns initialValue, h) \<Rightarrow>
             if initialValue = Undefined then value_loop rest data isHydrating (m\<lparr>heap := h\<rparr>)
             else value_loop rest data isHydrating
                    (m\<lparr> heap := h,
                       state := obj_set (remove1 CHR ''$'' fieldKey) initialValue (state m),
                       props := obj_set (remove1 CHR ''$'' fieldKey)
                                  \<lparr>p_value = initialValue, p_writable = True, p_enumerable = True\<rparr>
                                  (props m) \<rparr>)))"

definition ValueInitializer_initialize ::
  "(string \<times> jsval) list \<Rightarrow> bool \<Rightarrow> model \<Rightarrow> (error + unit) \<times> model" where
  "ValueInitializer_initialize data isHydrating m = value_loop (fieldMap m) data isHydrating m"

text \<open>
  \<open>isLoaded\<close> of \<open>validateAssociation\<close>: \<open>value.id !== undefined && Object.keys(value).length > 1\<close>.
  Reading \<open>.id\<close> of null or undefined is a \<open>TypeError\<close>.
\<close>

definition isLoaded :: "heap \<Rightarrow> jsval \<Rightarrow> error + bool" where
  "isLoaded h v =
     (if v = Undefined \<or> v = Null then Inl TypeError
      else Inr (get_member h v ''id'' \<noteq> Undefined
                \<and> (case own_keys h v of None \<Rightarrow> False | Some ks \<Rightarrow> length ks > 1)))"

fun association_loop ::
  "string \<times> string \<Rightarrow> model \<Rightarrow> string \<Rightarrow> string \<Rightarrow> jsval list \<Rightarrow> error + list_error list" where
  "association_loop paths m modelName fieldName [] = Inr []"
| "association_loop paths m modelName fieldName (v # vs) =
     (case isLoaded (heap m) v of
        Inl e \<Rightarrow> Inl e
      | Inr loaded \<Rightarrow>
          (case association_loop paths m modelName fieldName vs of
             Inl e \<Rightarrow> Inl e
           | Inr es \<Rightarrow>
               Inr ((if loaded \<and> \<not> association_validator paths m v
                     then [\<lparr>e_code = ASSOCIATION_INVALID, e_field = fieldName, e_model = modelName,
                            e_validator = []\<rparr>]
                     else []) @ es)))"

definition validateAssociation ::
  "registry \<Rightarrow> model \<Rightarrow> string \<Rightarrow> string \<Rightarrow> jsval \<Rightarrow> error + list_error list" where
  "validateAssociation reg m modelName fieldName fieldValue =
     (case getValidator reg modelName fieldName of
        None \<Rightarrow>
          Inr [\<lparr>e_code = ASSOCIATION_VALIDATOR_NOT_FOUND, e_field = fieldName, e_model = modelName,
                e_validator = []\<rparr>]
      | Some paths \<Rightarrow>
          association_loop paths m modelName fieldName
            (if isArray (heap m) fieldValue then elems (heap m) (addr_of fieldValue)
             else [fieldValue]))"

text \<open>The entry that \<open>validateAssociation\<close> adds for a value that fails its validator.\<close>

definition association_invalid :: "string \<Rightarrow> string \<Rightarrow> list_error" where
  "association_invalid fieldName modelName =
     \<lparr>e_code = ASSOCIATION_INVALID, e_field = fieldName, e_model = modelName, e_validator = []\<rparr>"

text \<open>The values it checks: the elements of an array, or the one value.\<close>

definition association_values :: "heap \<Rightarrow> jsval \<Rightarrow> jsval list" where
  "association_values h fieldValue =
     (if isArray h fieldValue then elems h (addr_of fieldValue) else [fieldValue])"

text \<open>\<open>validateField\<close>: nullability, the association, the eager validators, in this order.\<close>

definition validateField :: "registry \<Rightarrow> model \<Rightarrow> string \<Rightarrow> field \<Rightarrow> error + list_error list" where
  "validateField reg m fieldName f =
     (let fieldValue = unsafeGet fieldName m
      in if fieldValue = Undefined then Inr []
         else
           (case (if associate (options f) \<noteq> None
                  then validateAssociation reg m (metadata_model f) fieldName fieldValue
                  else Inr []) of
              Inl e \<Rightarrow> Inl e
            | Inr assocErrors \<Rightarrow>
                (case validate_loop (getEagerValidators (options f)) (view m) fieldValue fieldName
                        (metadata_model f) of
                   Inl e \<Rightarrow> Inl e
                 | Inr validatorErrors \<Rightarrow>
                     Inr ((if fieldValue = Null \<and> \<not> nullable (options f)
                           then [\<lparr>e_code = FIELD_NOT_NULLABLE, e_field = fieldName,
                                  e_model = metadata_model f, e_validator = []\<rparr>]
                           else []) @ assocErrors @ validatorErrors))))"

text \<open>
  \<open>ValidationInitializer.initialize\<close>: over the schema's keys, collecting the errors and the
  model name; each validated field's property is redefined with its real flags; any error
  aborts with \<open>MODEL_FIELD_VALIDATION_FAILED\<close>. The field of a key is looked up by its name.
\<close>

fun validation_loop ::
  "registry \<Rightarrow> string list \<Rightarrow> list_error list \<Rightarrow> string \<Rightarrow> model
    \<Rightarrow> (error + list_error list \<times> string) \<times> model" where
  "validation_loop reg [] errors modelName m = (Inr (errors, modelName), m)"
| "validation_loop reg (fieldName # rest) errors modelName m =
     (case map_of (fieldMap m) fieldName of
        None \<Rightarrow> (Inl TypeError, m)
      | Some f \<Rightarrow>
          if unsafeGet fieldName m = Undefined
          then validation_loop reg rest errors
                 (if modelName = [] then metadata_model f else modelName) m
          else (case validateField reg m fieldName f of
                  Inl e \<Rightarrow> (Inl e, m)
                | Inr es \<Rightarrow>
                    validation_loop reg rest (errors @ es)
                      (if modelName = [] then metadata_model f else modelName)
                      (m\<lparr>props := obj_set fieldName
                                     \<lparr>p_value = unsafeGet fieldName m,
                                      p_writable = isWritable f fieldName m,
                                      p_enumerable = isReadable f fieldName m\<rparr>
                                     (props m)\<rparr>)))"

definition ValidationInitializer_initialize ::
  "registry \<Rightarrow> string list \<Rightarrow> model \<Rightarrow> (error + unit) \<times> model" where
  "ValidationInitializer_initialize reg schemaKeys m =
     (case validation_loop reg schemaKeys [] [] m of
        (Inl e, m') \<Rightarrow> (Inl e, m')
      | (Inr (errors, modelName), m') \<Rightarrow>
          if errors \<noteq> [] then (Inl (VerveErrors MODEL_FIELD_VALIDATION_FAILED modelName errors), m')
          else (Inr (), m'))"

text \<open>
  \<open>deepClone\<close> is \<open>JSON.parse(JSON.stringify(obj))\<close>: a property whose value is undefined
  is dropped, an undefined array element becomes null, every array and object is rebuilt
  in a fresh cell, and a cycle is a \<open>TypeError\<close>. The first argument bounds the nesting
  depth, the second lists the objects being serialised.
\<close>

definition then_clone ::
  "(error + 'a \<times> heap) option \<Rightarrow> ('a \<Rightarrow> heap \<Rightarrow> (error + 'b \<times> heap) option)
    \<Rightarrow> (error + 'b \<times> heap) option" where
  "then_clone r k =
     (case r of
        None \<Rightarrow> None
      | Some (Inl e) \<Rightarrow> Some (Inl e)
      | Some (Inr (x, h')) \<Rightarrow> k x h')"

lemma then_clone_cong [fundef_cong]:
  "r = r' \<Longrightarrow> (\<And>x h'. r' = Some (Inr (x, h')) \<Longrightarrow> k x h' = k' x h')
    \<Longrightarrow> then_clone r k = then_clone r' k'"
  by (auto simp: then_clone_def split: option.splits sum.splits prod.splits)

function clone_value :: "nat \<Rightarrow> nat list \<Rightarrow> heap \<Rightarrow> jsval \<Rightarrow> (error + jsval \<times> heap) option"
  and clone_elems :: "nat \<Rightarrow> nat list \<Rightarrow> heap \<Rightarrow> jsval list \<Rightarrow> (error + jsval list \<times> heap) option"
  and clone_props ::
    "nat \<Rightarrow> nat list \<Rightarrow> heap \<Rightarrow> (string \<times> jsval) list \<Rightarrow> (error + (string \<times> jsval) list \<times> heap) option"
where
  "clone_value 0 stack h v = None"
| "clone_value (Suc n) stack h v =
     (case v of
        Ref a \<Rightarrow>
          if a \<in> set stack then Some (Inl TypeError)
          else (case cell h a of
                  HArr xs \<Rightarrow>
                    then_clone (clone_elems n (a # stack) h xs)
                      (\<lambda>ys h'. Some (Inr (Ref (length h'), h' @ [HArr ys])))
                | HObj ps \<Rightarrow>
                    then_clone (clone_props n (a # stack) h ps)
                      (\<lambda>qs h'. Some (Inr (Ref (length h'), h' @ [HObj qs]))))
      | _ \<Rightarrow> Some (Inr (v, h)))"
| "clone_elems n stack h [] = Some (Inr ([], h))"
| "clone_elems n stack h (x # xs) =
     then_clone (clone_value n stack h (if x = Undefined then Null else x))
       (\<lambda>y h'. then_clone (clone_elems n stack h' xs) (\<lambda>ys h''. Some (Inr (y # ys, h''))))"
| "clone_props n stack h [] = Some (Inr ([], h))"
| "clone_props n stack h ((k, v) # ps) =
     (if v = Undefined then clone_props n stack h ps
      else then_clone (clone_value n stack h v)
             (\<lambda>w h'. then_clone (clone_props n stack h' ps) (\<lambda>qs h''. Some (Inr ((k, w) # qs, h'')))))"
  by pat_completeness auto
termination
  by (relation
        "inv_image (less_than <*lex*> less_than <*lex*> less_than)
           (case_sum (\<lambda>(n, stack, h, v). (n, 0::nat, 0::nat))
              (case_sum (\<lambda>(n, stack, h, xs). (n, 1, length xs))
                        (\<lambda>(n, stack, h, ps). (n, 1, length ps))))")
     auto

definition deepClone :: "nat \<Rightarrow> heap \<Rightarrow> (string \<times> jsval) list \<Rightarrow> (error + (string \<times> jsval) list \<times> heap) option" where
  "deepClone n h ob = clone_props n [] h ob"

text \<open>\<open>Model[MODEL_INITIAL_STATE]\<close>.\<close>

definition MODEL_INITIAL_STATE :: "nat \<Rightarrow> (string \<times> jsval) list \<Rightarrow> model \<Rightarrow> (error + model) option" where
  "MODEL_INITIAL_STATE n st m =
     (case deepClone n (heap m) st of
        None \<Rightarrow> None
      | Some (Inl e) \<Rightarrow> Some (Inl e)
      | Some (Inr (copy, h)) \<Rightarrow> Some (Inr (m\<lparr>initialState := copy, heap := h\<rparr>)))"

text \<open>
  The instance that the constructor leaves: initializer \<open>make\<close>, everything empty. The
  context and the store are the surroundings of the call.
\<close>

definition new_instance :: "jsval \<Rightarrow> heap \<Rightarrow> model" where
  "new_instance c h =
     \<lparr> initializer = Make, fieldMap = [], state = [], initialState = [], changeLog = [],
       props = [], ctx = c, heap = h \<rparr>"

text \<open>
  \<open>make\<close> and \<open>from\<close>, phases 1, 2, 4 and 5 (phase 3 builds the proxy, which adds no state).
  A failure leaves no instance.
\<close>

definition make ::
  "registry \<Rightarrow> (string \<times> field) list \<Rightarrow> (string \<times> jsval) list \<Rightarrow> jsval \<Rightarrow> heap \<Rightarrow> error + model" where
  "make reg schema data c h =
     (let m1 = FieldInitializer_initialize schema ((new_instance c h)\<lparr>initializer := Make\<rparr>)
      in (case ValueInitializer_initialize data False m1 of
            (Inl e, m2) \<Rightarrow> Inl e
          | (Inr u, m2) \<Rightarrow>
              (case ValidationInitializer_initialize reg (map fst schema) m2 of
                 (Inl e, m3) \<Rightarrow> Inl e
               | (Inr u', m3) \<Rightarrow>
                   Inr (fold (\<lambda>key m. MODEL_CHANGE_LOG
                                 \<lparr>c_field = key, c_currentValue = obj_get (state m) key,
                                  c_previousValue = Undefined\<rparr> m)
                          (map fst (state m3)) m3))))"

definition from_data ::
  "nat \<Rightarrow> registry \<Rightarrow> (string \<times> field) list \<Rightarrow> (string \<times> jsval) list \<Rightarrow> jsval \<Rightarrow> heap
    \<Rightarrow> (error + model) option" where
  "from_data n reg schema data c h =
     (let m1 = FieldInitializer_initialize schema ((new_instance c h)\<lparr>initializer := From\<rparr>)
      in (case ValueInitializer_initialize data True m1 of
            (Inl e, m2) \<Rightarrow> Some (Inl e)
          | (Inr u, m2) \<Rightarrow>
              (case ValidationInitializer_initialize reg (map fst schema) m2 of
                 (Inl e, m3) \<Rightarrow> Some (Inl e)
               | (Inr u', m3) \<Rightarrow> MODEL_INITIAL_STATE n (state m3) m3)))"

text \<open>
  How a construction that was handed null for a non-nullable field can end: an exception
  (a \<open>TypeError\<close> of the runtime, an exception of a user callback), or the aggregate
  \<open>MODEL_FIELD_VALIDATION_FAILED\<close> whose list holds \<open>FIELD_NOT_NULLABLE\<close> for the field.
\<close>

definition not_nullable_error :: "string \<Rightarrow> field \<Rightarrow> list_error" where
  "not_nullable_error key f =
     \<lparr>e_code = FIELD_NOT_NULLABLE, e_field = key, e_model = metadata_model f, e_validator = []\<rparr>"


section \<open>Example schema and instances\<close>

text \<open>\<open>DEFAULT_FIELD_OPTIONS\<close>, as \<open>FieldBuilder.toField\<close> fills them in.\<close>

definition DEFAULT_FIELD_OPTIONS :: field_options where
  "DEFAULT_FIELD_OPTIONS =
     \<lparr> nullable = False, readable = RuleBool True, writable = RuleBool True,
       default_value = Undefined, compute = None, generator = None, validators = [],
       associate = None \<rparr>"

text \<open>The write rule that the \<open>id()\<close> factory installs: \<open>model.isNew()\<close>.\<close>

definition isIdWritable :: "jsval \<Rightarrow> instance_view \<Rightarrow> jsval \<Rightarrow> callres" where
  "isIdWritable c v x = Returns (Bool (v_isNew v))"

text \<open>An eager generator that returns a constant, as \<open>() => 'some-id'\<close>.\<close>

definition constant_generator :: "jsval \<Rightarrow> generator" where
  "constant_generator v = \<lparr> gn_lazy = False, gn_fn = (\<lambda>h. (Returns v, h)) \<rparr>"

text \<open>
  Two validators: \<open>(value) => value.length > 2\<close>, which throws on null, and one that
  answers with a message when it fails, \<open>(value) => value.includes('@') || 'must contain @'\<close>.
\<close>

definition longer_than_two :: validator where
  "longer_than_two =
     \<lparr> vd_name = [], vd_lazy = False,
       vd_fn = (\<lambda>vw v. case v of Str s \<Rightarrow> Returns (Bool (length s > 2)) | Null \<Rightarrow> Throws
                       | Undefined \<Rightarrow> Throws | _ \<Rightarrow> Returns (Bool False)) \<rparr>"

definition contains_at :: validator where
  "contains_at =
     \<lparr> vd_name = ''containsAt'', vd_lazy = True,
       vd_fn = (\<lambda>vw v. case v of
                         Str s \<Rightarrow> Returns (if CHR ''@'' \<in> set s then Bool True
                                            else Str ''must contain @'')
                       | _ \<Rightarrow> Throws) \<rparr>"

text \<open>A \<open>User\<close> schema in the manner of the library's examples.\<close>

definition user_id :: field where
  "user_id = \<lparr> kind = IdField, metadata_model = ''User'', metadata_name = ''id'',
               options = DEFAULT_FIELD_OPTIONS
                 \<lparr> writable := RuleFn isIdWritable,
                   generator := Some (constant_generator (Str ''some-id'')) \<rparr> \<rparr>"

definition user_name :: field where
  "user_name = \<lparr> kind = TextField, metadata_model = ''User'', metadata_name = ''name'',
                 options = DEFAULT_FIELD_OPTIONS\<lparr>nullable := True\<rparr> \<rparr>"

definition user_password :: field where
  "user_password = \<lparr> kind = TextField, metadata_model = ''User'', metadata_name = ''password'',
                     options = DEFAULT_FIELD_OPTIONS
                       \<lparr>readable := RuleBool False, validators := [longer_than_two]\<rparr> \<rparr>"

definition user_email :: field where
  "user_email = \<lparr> kind = TextField, metadata_model = ''User'', metadata_name = ''email'',
                  options = DEFAULT_FIELD_OPTIONS\<lparr>validators := [contains_at]\<rparr> \<rparr>"

definition user_age :: field where
  "user_age = \<lparr> kind = NumberField, metadata_model = ''User'', metadata_name = ''age'',
                options = DEFAULT_FIELD_OPTIONS
                  \<lparr>generator := Some ((constant_generator (Num 18))\<lparr>gn_lazy := True\<rparr>)\<rparr> \<rparr>"

definition user_groups :: field where
  "user_groups = \<lparr> kind = ListField, metadata_model = ''User'', metadata_name = ''groups'',
                   options = DEFAULT_FIELD_OPTIONS \<rparr>"

definition user_isActive :: field where
  "user_isActive = \<lparr> kind = BoolField, metadata_model = ''User'', metadata_name = ''isActive'',
                     options = DEFAULT_FIELD_OPTIONS\<lparr>default_value := Bool False\<rparr> \<rparr>"

definition user_schema :: "(string \<times> field) list" where
  "user_schema =
     [(''id'', user_id), (''name'', user_name), (''password'', user_password),
      (''email'', user_email), (''age'', user_age), (''groups'', user_groups),
      (''isActive'', user_isActive)]"

definition no_associations :: registry where
  "no_associations = \<lparr> associations = [], reg_validators = [] \<rparr>"

text \<open>
  The store of the examples: cell 0 is \<open>['a', 'b']\<close>, cell 1 is \<open>['x']\<close>, cell 2 is
  \<open>[2, 1]\<close>, cell 3 is \<open>[1, 2]\<close>.
\<close>

definition store0 :: heap where
  "store0 = [HArr [Str ''a'', Str ''b''], HArr [Str ''x''], HArr [Num 2, Num 1], HArr [Num 1, Num 2]]"

text \<open>A user hydrated from \<open>{id: '123', name: 'John', groups: ['a', 'b']}\<close>.\<close>

definition john :: model where
  "john =
     \<lparr> initializer = From,
       fieldMap = user_schema,
       state = [(''id'', Str ''123''), (''name'', Str ''John''), (''groups'', Ref 0)],
       initialState = [(''id'', Str ''123''), (''name'', Str ''John''), (''groups'', Ref 4)],
       changeLog = [],
       props = [(''id'', \<lparr>p_value = Str ''123'', p_writable = False, p_enumerable = True\<rparr>),
                (''name'', \<lparr>p_value = Str ''John'', p_writable = True, p_enumerable = True\<rparr>),
                (''groups'', \<lparr>p_value = Ref 0, p_writable = True, p_enumerable = True\<rparr>)],
       ctx = Undefined,
       heap = store0 @ [HArr [Str ''a'', Str ''b'']] \<rparr>"



text \<open>
  A \<open>Post\<close> schema with two association fields, both declared \<open>associate('id').to('authorId')\<close>
  towards \<open>User\<close>: the embedded user's \<open>id\<close> has to equal the post's \<open>authorId\<close>.
\<close>

definition post_authorId :: field where
  "post_authorId = \<lparr> kind = TextField, metadata_model = ''Post'', metadata_name = ''authorId'',
                     options = DEFAULT_FIELD_OPTIONS \<rparr>"

definition post_author :: field where
  "post_author = \<lparr> kind = RecordField, metadata_model = ''Post'', metadata_name = ''author'',
                   options = DEFAULT_FIELD_OPTIONS\<lparr>associate := Some (''id'', ''authorId'')\<rparr> \<rparr>"

definition post_reviewers :: field where
  "post_reviewers = \<lparr> kind = ListField, metadata_model = ''Post'', metadata_name = ''reviewers'',
                      options = DEFAULT_FIELD_OPTIONS\<lparr>associate := Some (''id'', ''authorId'')\<rparr> \<rparr>"

definition post_schema :: "(string \<times> field) list" where
  "post_schema =
     [(''authorId'', post_authorId), (''author'', post_author), (''reviewers'', post_reviewers)]"

text \<open>The registry after the \<open>model\<close> decorator has registered both associations.\<close>

definition post_registry :: registry where
  "post_registry =
     register \<lparr>a_sourceModel = ''Post'', a_sourcePath = ''authorId'', a_fieldName = ''reviewers'',
               a_targetModel = ''User'', a_targetPath = ''id''\<rparr>
       (register \<lparr>a_sourceModel = ''Post'', a_sourcePath = ''authorId'', a_fieldName = ''author'',
                 a_targetModel = ''User'', a_targetPath = ''id''\<rparr>
          \<lparr>associations = [], reg_validators = []\<rparr>)"

text \<open>
  Four embedded users and an array of them: cell 0 is loaded and is user \<open>u1\<close>; cell 1 holds
  only an id; cell 2 has no id; cell 3 is loaded and is user \<open>u9\<close>.
\<close>

definition store1 :: heap where
  "store1 =
     [HObj [(''id'', Str ''u1''), (''name'', Str ''Ann'')],
      HObj [(''id'', Str ''u2'')],
      HObj [(''name'', Str ''Bob''), (''age'', Num 3)],
      HObj [(''id'', Str ''u9''), (''name'', Str ''Eve'')],
      HArr [Ref 0, Ref 1, Ref 2, Ref 3]]"

text \<open>The post made from \<open>{authorId: 'u1', author: {id: 'u2'}}\<close>.\<close>

definition ann_post :: model where
  "ann_post =
     \<lparr> initializer = Make,
       fieldMap = post_schema,
       state = [(''authorId'', Str ''u1''), (''author'', Ref 1)],
       initialState = [],
       changeLog =
         [\<lparr>c_field = ''authorId'', c_currentValue = Str ''u1'', c_previousValue = Undefined\<rparr>,
          \<lparr>c_field = ''author'', c_currentValue = Ref 1, c_previousValue = Undefined\<rparr>],
       props = [(''authorId'', \<lparr>p_value = Str ''u1'', p_writable = True, p_enumerable = True\<rparr>),
                (''author'', \<lparr>p_value = Ref 1, p_writable = True, p_enumerable = True\<rparr>)],
       ctx = Undefined,
       heap = store1 \<rparr>"





text \<open>
  A schema whose association field is nullable, as \<open>author\<close> and \<open>post\<close> are in the
  repository's example models \<open>Post\<close> and \<open>Asset\<close>, and the registry with its association.
\<close>

definition post_editor :: field where
  "post_editor = \<lparr> kind = RecordField, metadata_model = ''Post'', metadata_name = ''editor'',
                   options = DEFAULT_FIELD_OPTIONS
                     \<lparr>nullable := True, associate := Some (''id'', ''authorId'')\<rparr> \<rparr>"

definition draft_schema :: "(string \<times> field) list" where
  "draft_schema = [(''authorId'', post_authorId), (''editor'', post_editor)]"

definition draft_registry :: registry where
  "draft_registry =
     register \<lparr>a_sourceModel = ''Post'', a_sourcePath = ''authorId'', a_fieldName = ''editor'',
               a_targetModel = ''User'', a_targetPath = ''id''\<rparr>
       \<lparr>associations = [], reg_validators = []\<rparr>"

section \<open>Evaluation of the examples\<close>

lemmas example_defs =
  john_def user_schema_def user_id_def user_name_def user_password_def user_email_def
  user_age_def user_groups_def user_isActive_def DEFAULT_FIELD_OPTIONS_def isIdWritable_def
  constant_generator_def longer_than_two_def contains_at_def no_associations_def store0_def

lemmas field_op_defs =
  Field_set_def Field_unset_def isWritable_def isReadable_def apply_rule_def
  MODEL_CHANGE_LOG_def assign_prop_def unsafeGet_def view_def Let_def

lemmas init_defs =
  from_data_def make_def new_instance_def ValueInitializer_initialize_def getInitialValue_def
  getEagerGenerator_def ValidationInitializer_initialize_def validateField_def
  getEagerValidators_def obj_get_def MODEL_INITIAL_STATE_def deepClone_def then_clone_def
  cell_def


section \<open>Properties of the change log\<close>

lemma fst_obj_set: "fst ` set (obj_set k v ps) = insert k (fst ` set ps)"
  by (induction ps) auto

lemma obj_get_delete: "obj_get (obj_delete k ob) k = Undefined"
  by (induction ob) (auto simp: obj_get_def obj_delete_def)

lemma getChanges_loop_keys:
  "fst ` set (getChanges_loop ist ls changes cf) \<subseteq> fst ` set changes \<union> c_field ` set ls"
proof (induction ls arbitrary: changes cf)
  case Nil
  show ?case by simp
next
  case (Cons l ls)
  have a: "fst ` set (getChanges_loop ist ls changes cf) \<subseteq> fst ` set changes \<union> c_field ` set ls"
    by (rule Cons.IH)
  have b: "fst ` set (getChanges_loop ist ls changes (cf @ [c_field l]))
            \<subseteq> fst ` set changes \<union> c_field ` set ls"
    by (rule Cons.IH)
  have c: "fst ` set (getChanges_loop ist ls (obj_set (c_field l) (c_currentValue l) changes)
                        (cf @ [c_field l]))
            \<subseteq> insert (c_field l) (fst ` set changes) \<union> c_field ` set ls"
    using Cons.IH [of "obj_set (c_field l) (c_currentValue l) changes" "cf @ [c_field l]"]
    by (simp add: fst_obj_set)
  show ?case using a b c by auto
qed

lemma getChanges_keys: "fst ` set (getChanges m) \<subseteq> c_field ` set (changeLog m)"
  using getChanges_loop_keys [of "initialState m" "getChangeLog m" "[]" "[]"]
  by (simp add: getChanges_def getChangeLog_def)

lemma Field_set_fieldMap: "fieldMap (snd (Field_set fld f v m)) = fieldMap m"
  by (simp add: Field_set_def MODEL_CHANGE_LOG_def Let_def split: option.splits)

lemma Field_set_changeLog:
  "Field_set fld f v m = (Inr u, m1) \<Longrightarrow>
   changeLog m1 =
     (if v = Undefined then filter (\<lambda>l. c_field l \<noteq> f) (changeLog m)
      else changeLog m @
             [\<lparr>c_field = f, c_currentValue = v, c_previousValue = obj_get (state m) f\<rparr>])"
  by (auto simp add: Field_set_def MODEL_CHANGE_LOG_def Let_def split: option.splits if_splits)

lemma Model_unset_single:
  "map_of (fieldMap m) f = Some fld \<Longrightarrow>
   Model_unset [f] m =
     (Inr (), m\<lparr>changeLog := filter (\<lambda>l. c_field l \<noteq> f) (changeLog m),
                state := obj_delete f (state m), props := obj_delete f (props m)\<rparr>)"
  by (simp add: Field_unset_def MODEL_CHANGE_LOG_def)

text \<open>
  C6. Unsetting a field erases its change-log entries; nothing is appended. For every
  instance \<open>m\<close>, field \<open>f\<close> of it and value \<open>v\<close>: when \<open>set({f: v})\<close> has returned, \<open>unset([f])\<close>
  returns too, the log is then the log from before the \<open>set\<close> without the entries of \<open>f\<close>, no
  entry for \<open>f\<close> remains, \<open>getChanges()\<close> has no key \<open>f\<close>, and the field reads undefined.
\<close>

theorem unset_erases_change_log:
  assumes fld: "map_of (fieldMap m) f = Some fld"
      and st: "Model_set [(f, v)] m = (Inr (), m1)"
  shows "\<exists>m2. Model_unset [f] m1 = (Inr (), m2)
           \<and> changeLog m2 = filter (\<lambda>l. c_field l \<noteq> f) (changeLog m)
           \<and> (\<forall>l \<in> set (changeLog m2). c_field l \<noteq> f)
           \<and> f \<notin> fst ` set (getChanges m2)
           \<and> unsafeGet f m2 = Undefined"
proof -
  have fm: "fieldMap m1 = fieldMap m"
    using st fld Field_set_fieldMap [of fld f v m]
    by (auto split: if_splits prod.splits sum.splits)
  have cl: "filter (\<lambda>l. c_field l \<noteq> f) (changeLog m1) = filter (\<lambda>l. c_field l \<noteq> f) (changeLog m)"
    using st fld Field_set_changeLog [of fld f v m]
    by (auto split: if_splits prod.splits sum.splits)
  define m2 where
    "m2 = m1\<lparr>changeLog := filter (\<lambda>l. c_field l \<noteq> f) (changeLog m1),
             state := obj_delete f (state m1), props := obj_delete f (props m1)\<rparr>"
  have u: "Model_unset [f] m1 = (Inr (), m2)"
    unfolding m2_def using fld fm by (intro Model_unset_single) simp
  have l2: "changeLog m2 = filter (\<lambda>l. c_field l \<noteq> f) (changeLog m)"
    by (simp add: m2_def cl)
  have no: "\<forall>l \<in> set (changeLog m2). c_field l \<noteq> f"
    by (simp add: l2)
  have g: "f \<notin> fst ` set (getChanges m2)"
  proof
    assume "f \<in> fst ` set (getChanges m2)"
    then have "f \<in> c_field ` set (changeLog m2)"
      using getChanges_keys [of m2] by (rule rev_subsetD)
    then show False using no by blast
  qed
  have s: "unsafeGet f m2 = Undefined"
    by (simp add: m2_def unsafeGet_def obj_get_delete)
  show ?thesis using u l2 no g s by blast
qed

theorem unset_erases_change_log_witness:
  "map_of (fieldMap john) ''name'' = Some user_name
   \<and> Model_set [(''name'', Str ''Jane'')] john
       = (Inr (), snd (Model_set [(''name'', Str ''Jane'')] john))
   \<and> changeLog (snd (Model_set [(''name'', Str ''Jane'')] john)) \<noteq> []
   \<and> (\<exists>m2. Model_unset [''name''] (snd (Model_set [(''name'', Str ''Jane'')] john)) = (Inr (), m2)
           \<and> changeLog m2 = filter (\<lambda>l. c_field l \<noteq> ''name'') (changeLog john)
           \<and> (\<forall>l \<in> set (changeLog m2). c_field l \<noteq> ''name'')
           \<and> ''name'' \<notin> fst ` set (getChanges m2)
           \<and> unsafeGet ''name'' m2 = Undefined)"
proof -
  have h1: "map_of (fieldMap john) ''name'' = Some user_name"
    by (simp add: john_def user_schema_def)
  have h0: "fst (Model_set [(''name'', Str ''Jane'')] john) = Inr ()"
    by (simp add: example_defs field_op_defs)
  have h2: "Model_set [(''name'', Str ''Jane'')] john
              = (Inr (), snd (Model_set [(''name'', Str ''Jane'')] john))"
    using h0 by (metis prod.collapse)
  have h3: "changeLog (snd (Model_set [(''name'', Str ''Jane'')] john)) \<noteq> []"
    by (simp add: example_defs field_op_defs)
  show ?thesis using h1 h2 h3 unset_erases_change_log [OF h1 h2] by blast
qed

section \<open>What \<open>getChanges\<close> reports\<close>

lemma map_of_obj_set: "map_of (obj_set k v ps) = (map_of ps)(k \<mapsto> v)"
  by (induction ps) auto



subsection \<open>The baseline of a hydrated instance holds fresh cells only\<close>













section \<open>Reading an uninitialized field\<close>

text \<open>
  C4, as amended. For any model and field whose stored value is undefined, reading through
  \<open>Field.get\<close> fails: with \<open>FIELD_NOT_READABLE\<close> when the field's read rule denies the read
  (that check comes first), and with \<open>FIELD_NOT_INITIALIZED\<close> otherwise. \<open>unsafeGet\<close>
  returns undefined and cannot fail.
\<close>

theorem Field_get_uninitialized:
  "unsafeGet key m = Undefined \<Longrightarrow>
   Field_get f key m =
     Inl (VerveError (if isReadable f key m then FIELD_NOT_INITIALIZED else FIELD_NOT_READABLE)
            key (metadata_model f))"
  by (simp add: Field_get_def)

theorem Field_get_uninitialized_witness:
  "unsafeGet ''age'' john = Undefined
   \<and> isReadable user_age ''age'' john
   \<and> Field_get user_age ''age'' john = Inl (VerveError FIELD_NOT_INITIALIZED ''age'' ''User'')"
proof -
  have u: "unsafeGet ''age'' john = Undefined"
    by (simp add: example_defs field_op_defs obj_get_def)
  have r: "isReadable user_age ''age'' john"
    by (simp add: example_defs field_op_defs)
  show ?thesis
    using u r Field_get_uninitialized [OF u, of user_age] by (simp add: user_age_def)
qed

text \<open>
  The claim as stated fails for a field that is not readable. A user made from
  \<open>{name: 'Martin'}\<close> has no password; the password field is declared \<open>readable(false)\<close>;
  reading it fails with \<open>FIELD_NOT_READABLE\<close>, not with \<open>FIELD_NOT_INITIALIZED\<close>.
\<close>

theorem Field_get_not_readable_counterexample:
  "\<exists>m. make no_associations user_schema [(''name'', Str ''Martin'')] Undefined store0 = Inr m
     \<and> unsafeGet ''password'' m = Undefined
     \<and> Field_get user_password ''password'' m
         = Inl (VerveError FIELD_NOT_READABLE ''password'' ''User'')
     \<and> Field_get user_password ''password'' m
         \<noteq> Inl (VerveError FIELD_NOT_INITIALIZED ''password'' ''User'')"
  by (simp add: init_defs example_defs field_op_defs Field_get_def)

section \<open>\<open>only\<close>, \<open>except\<close> and the ID field\<close>

lemma obj_get_obj_delete: "obj_get (obj_delete key ob) k = (if k = key then Undefined else obj_get ob k)"
  by (induction ob) (auto simp: obj_get_def obj_delete_def)

lemma unsafeGet_Field_unset:
  "unsafeGet k (snd (Field_unset f key m)) = (if k = key then Undefined else unsafeGet k m)"
  by (simp add: Field_unset_def unsafeGet_def MODEL_CHANGE_LOG_def obj_get_obj_delete Let_def)

lemma fst_Field_unset: "fst (Field_unset f key m) = Inr ()"
  by (simp add: Field_unset_def Let_def)

lemma except_loop_fails:
  "(k, f) \<in> set fs \<Longrightarrow> k \<in> set keys \<Longrightarrow> kind f = IdField \<Longrightarrow>
   fst (except_loop fs keys m) = Inl (VerveError ID_FIELD_CANNOT_BE_EXCLUDED [] [])"
proof (induction fs arbitrary: m)
  case Nil
  then show ?case by simp
next
  case (Cons p fs)
  obtain k' f' where p: "p = (k', f')" by (cases p)
  show ?case
  proof (cases "k' \<in> set keys \<and> kind f' = IdField")
    case True
    then show ?thesis by (simp add: p)
  next
    case False
    then have "(k, f) \<in> set fs" using Cons.prems p by auto
    then have IH: "\<And>m. fst (except_loop fs keys m) = Inl (VerveError ID_FIELD_CANNOT_BE_EXCLUDED [] [])"
      using Cons.IH Cons.prems by blast
    show ?thesis
      using False IH fst_Field_unset [of f' k' m]
      by (auto simp: p split: prod.splits sum.splits)
  qed
qed

lemma except_loop_succeeds:
  "\<forall>(k, f) \<in> set fs. k \<in> set keys \<longrightarrow> kind f \<noteq> IdField \<Longrightarrow>
   \<exists>m'. except_loop fs keys m = (Inr (), m')
      \<and> (\<forall>k. unsafeGet k m' = (if k \<in> fst ` set fs \<and> k \<in> set keys then Undefined else unsafeGet k m))"
proof (induction fs arbitrary: m)
  case Nil
  then show ?case by simp
next
  case (Cons p fs)
  obtain k' f' where p: "p = (k', f')" by (cases p)
  have tl: "\<forall>(k, f) \<in> set fs. k \<in> set keys \<longrightarrow> kind f \<noteq> IdField" using Cons.prems by auto
  show ?case
  proof (cases "k' \<in> set keys")
    case False
    from Cons.IH [OF tl, of m] obtain m' where
      "except_loop fs keys m = (Inr (), m')"
      "\<forall>k. unsafeGet k m' = (if k \<in> fst ` set fs \<and> k \<in> set keys then Undefined else unsafeGet k m)"
      by blast
    then show ?thesis using False by (auto simp: p)
  next
    case True
    then have nid: "kind f' \<noteq> IdField" using Cons.prems p by auto
    define m1 where "m1 = snd (Field_unset f' k' m)"
    have u: "Field_unset f' k' m = (Inr (), m1)"
      using fst_Field_unset [of f' k' m] by (simp add: m1_def prod_eq_iff)
    from Cons.IH [OF tl, of m1] obtain m' where
      e: "except_loop fs keys m1 = (Inr (), m')" and
      g: "\<forall>k. unsafeGet k m' = (if k \<in> fst ` set fs \<and> k \<in> set keys then Undefined else unsafeGet k m1)"
      by blast
    have "except_loop (p # fs) keys m = (Inr (), m')"
      using True nid u e by (simp add: p)
    moreover have "\<forall>k. unsafeGet k m' = (if k \<in> fst ` set (p # fs) \<and> k \<in> set keys then Undefined else unsafeGet k m)"
      using g True by (auto simp: p m1_def unsafeGet_Field_unset)
    ultimately show ?thesis by blast
  qed
qed

lemma only_loop_result:
  "\<exists>m'. only_loop fs keys m = (Inr (), m')
      \<and> (\<forall>k. unsafeGet k m' =
               (if (\<exists>f. (k, f) \<in> set fs \<and> kind f \<noteq> IdField) \<and> k \<notin> set keys then Undefined
                else unsafeGet k m))"
proof (induction fs arbitrary: m)
  case Nil
  then show ?case by simp
next
  case (Cons p fs)
  obtain k' f' where p: "p = (k', f')" by (cases p)
  show ?case
  proof (cases "k' \<in> set keys \<or> kind f' = IdField")
    case True
    from Cons.IH [of m] obtain m' where
      "only_loop fs keys m = (Inr (), m')"
      "\<forall>k. unsafeGet k m' =
               (if (\<exists>f. (k, f) \<in> set fs \<and> kind f \<noteq> IdField) \<and> k \<notin> set keys then Undefined
                else unsafeGet k m)"
      by blast
    then show ?thesis using True by (auto simp: p)
  next
    case False
    define m1 where "m1 = snd (Field_unset f' k' m)"
    have u: "Field_unset f' k' m = (Inr (), m1)"
      using fst_Field_unset [of f' k' m] by (simp add: m1_def prod_eq_iff)
    from Cons.IH [of m1] obtain m' where
      e: "only_loop fs keys m1 = (Inr (), m')" and
      g: "\<forall>k. unsafeGet k m' =
               (if (\<exists>f. (k, f) \<in> set fs \<and> kind f \<noteq> IdField) \<and> k \<notin> set keys then Undefined
                else unsafeGet k m1)"
      by blast
    have "only_loop (p # fs) keys m = (Inr (), m')"
      using False u e by (simp add: p)
    moreover have "\<forall>k. unsafeGet k m' =
               (if (\<exists>f. (k, f) \<in> set (p # fs) \<and> kind f \<noteq> IdField) \<and> k \<notin> set keys then Undefined
                else unsafeGet k m)"
      using g False by (auto simp: p m1_def unsafeGet_Field_unset)
    ultimately show ?thesis by blast
  qed
qed

text \<open>
  C5. For every instance (its fields map has one entry per key) and every key list:
  \<open>except(keys)\<close> fails with \<open>ID_FIELD_CANNOT_BE_EXCLUDED\<close> whenever \<open>keys\<close> names an ID
  field; when it names none, it returns and has unset exactly the named fields;
  \<open>only(keys)\<close> always returns, and every field that is named or is an ID field keeps its
  value, every other field is unset.
\<close>

theorem id_field_protected:
  assumes d: "distinct (map fst (fieldMap m))"
  shows "(map_of (fieldMap m) i = Some idf \<and> kind idf = IdField \<and> i \<in> set keys
            \<longrightarrow> fst (Model_except keys m) = Inl (VerveError ID_FIELD_CANNOT_BE_EXCLUDED [] []))
       \<and> ((\<forall>k f. map_of (fieldMap m) k = Some f \<and> k \<in> set keys \<longrightarrow> kind f \<noteq> IdField)
            \<longrightarrow> (\<exists>m'. Model_except keys m = (Inr (), m')
                   \<and> (\<forall>k f. map_of (fieldMap m) k = Some f \<longrightarrow>
                         unsafeGet k m' = (if k \<in> set keys then Undefined else unsafeGet k m))))
       \<and> (\<exists>m'. Model_only keys m = (Inr (), m')
             \<and> (\<forall>k f. map_of (fieldMap m) k = Some f \<longrightarrow>
                   unsafeGet k m' = (if k \<in> set keys \<or> kind f = IdField then unsafeGet k m
                                     else Undefined)))"
proof (intro conjI impI)
  assume "map_of (fieldMap m) i = Some idf \<and> kind idf = IdField \<and> i \<in> set keys"
  then show "fst (Model_except keys m) = Inl (VerveError ID_FIELD_CANNOT_BE_EXCLUDED [] [])"
    unfolding Model_except_def by (intro except_loop_fails [of i idf]) (auto dest: map_of_SomeD)
next
  assume a: "\<forall>k f. map_of (fieldMap m) k = Some f \<and> k \<in> set keys \<longrightarrow> kind f \<noteq> IdField"
  have "\<forall>(k, f) \<in> set (fieldMap m). k \<in> set keys \<longrightarrow> kind f \<noteq> IdField"
  proof (clarify)
    fix k f assume "(k, f) \<in> set (fieldMap m)" and "k \<in> set keys" and "kind f = IdField"
    moreover from this d have "map_of (fieldMap m) k = Some f" by (simp add: map_of_is_SomeI)
    ultimately show False using a by blast
  qed
  from except_loop_succeeds [OF this, of m] obtain m' where
    e: "except_loop (fieldMap m) keys m = (Inr (), m')" and
    g: "\<forall>k. unsafeGet k m' = (if k \<in> fst ` set (fieldMap m) \<and> k \<in> set keys then Undefined else unsafeGet k m)"
    by blast
  have "\<forall>k f. map_of (fieldMap m) k = Some f \<longrightarrow>
          unsafeGet k m' = (if k \<in> set keys then Undefined else unsafeGet k m)"
  proof (intro allI impI)
    fix k f assume "map_of (fieldMap m) k = Some f"
    then have "k \<in> fst ` set (fieldMap m)" by (metis map_of_SomeD fst_conv image_eqI)
    then show "unsafeGet k m' = (if k \<in> set keys then Undefined else unsafeGet k m)"
      using g by simp
  qed
  then show "\<exists>m'. Model_except keys m = (Inr (), m')
       \<and> (\<forall>k f. map_of (fieldMap m) k = Some f \<longrightarrow>
             unsafeGet k m' = (if k \<in> set keys then Undefined else unsafeGet k m))"
    using e by (auto simp: Model_except_def)
next
  from only_loop_result [of "fieldMap m" keys m] obtain m' where
    e: "only_loop (fieldMap m) keys m = (Inr (), m')" and
    g: "\<forall>k. unsafeGet k m' =
               (if (\<exists>f. (k, f) \<in> set (fieldMap m) \<and> kind f \<noteq> IdField) \<and> k \<notin> set keys then Undefined
                else unsafeGet k m)"
    by blast
  have "\<forall>k f. map_of (fieldMap m) k = Some f \<longrightarrow>
          unsafeGet k m' = (if k \<in> set keys \<or> kind f = IdField then unsafeGet k m else Undefined)"
  proof (intro allI impI)
    fix k f assume kf: "map_of (fieldMap m) k = Some f"
    then have mem: "(k, f) \<in> set (fieldMap m)" by (rule map_of_SomeD)
    have uniq: "\<And>f'. (k, f') \<in> set (fieldMap m) \<Longrightarrow> f' = f"
      using d kf by (simp add: map_of_eq_Some_iff)
    have "(\<exists>f'. (k, f') \<in> set (fieldMap m) \<and> kind f' \<noteq> IdField) \<longleftrightarrow> kind f \<noteq> IdField"
      using mem uniq by blast
    then show "unsafeGet k m' = (if k \<in> set keys \<or> kind f = IdField then unsafeGet k m else Undefined)"
      using g by simp
  qed
  then show "\<exists>m'. Model_only keys m = (Inr (), m')
       \<and> (\<forall>k f. map_of (fieldMap m) k = Some f \<longrightarrow>
             unsafeGet k m' = (if k \<in> set keys \<or> kind f = IdField then unsafeGet k m else Undefined))"
    using e by (auto simp: Model_only_def)
qed

theorem id_field_protected_witness:
  "distinct (map fst (fieldMap john))
   \<and> map_of (fieldMap john) ''id'' = Some user_id \<and> kind user_id = IdField
   \<and> fst (Model_except [''name'', ''id''] john) = Inl (VerveError ID_FIELD_CANNOT_BE_EXCLUDED [] [])
   \<and> (\<exists>m'. Model_except [''name''] john = (Inr (), m')
          \<and> unsafeGet ''name'' m' = Undefined \<and> unsafeGet ''id'' m' = Str ''123'')
   \<and> (\<exists>m'. Model_only [''name''] john = (Inr (), m')
          \<and> unsafeGet ''name'' m' = Str ''John'' \<and> unsafeGet ''id'' m' = Str ''123''
          \<and> unsafeGet ''groups'' m' = Undefined)"
proof -
  have d: "distinct (map fst (fieldMap john))"
    by (simp add: john_def user_schema_def)
  have i: "map_of (fieldMap john) ''id'' = Some user_id" "kind user_id = IdField"
    by (simp_all add: john_def user_schema_def user_id_def)
  have n: "map_of (fieldMap john) ''name'' = Some user_name" "kind user_name = TextField"
    by (simp_all add: john_def user_schema_def user_name_def)
  have g: "map_of (fieldMap john) ''groups'' = Some user_groups" "kind user_groups = ListField"
    by (simp_all add: john_def user_schema_def user_groups_def)
  have v: "unsafeGet ''name'' john = Str ''John''" "unsafeGet ''id'' john = Str ''123''"
    by (simp_all add: john_def unsafeGet_def obj_get_def)
  have e1: "fst (Model_except [''name'', ''id''] john)
              = Inl (VerveError ID_FIELD_CANNOT_BE_EXCLUDED [] [])"
    using id_field_protected [OF d, of "''id''" user_id "[''name'', ''id'']", THEN conjunct1] i
    by simp
  have "\<forall>k f. map_of (fieldMap john) k = Some f \<and> k \<in> set [''name''] \<longrightarrow> kind f \<noteq> IdField"
    using n by auto
  with id_field_protected [OF d, of "''id''" user_id "[''name'']", THEN conjunct2, THEN conjunct1]
  obtain m1 where
    m1: "Model_except [''name''] john = (Inr (), m1)"
        "\<forall>k f. map_of (fieldMap john) k = Some f \<longrightarrow>
           unsafeGet k m1 = (if k \<in> set [''name''] then Undefined else unsafeGet k john)"
    by blast
  have e2: "unsafeGet ''name'' m1 = Undefined" "unsafeGet ''id'' m1 = Str ''123''"
    using m1(2) n(1) i(1) v by auto
  from id_field_protected [OF d, of "''id''" user_id "[''name'']", THEN conjunct2, THEN conjunct2]
  obtain m2 where
    m2: "Model_only [''name''] john = (Inr (), m2)"
        "\<forall>k f. map_of (fieldMap john) k = Some f \<longrightarrow>
           unsafeGet k m2 = (if k \<in> set [''name''] \<or> kind f = IdField then unsafeGet k john
                             else Undefined)"
    by blast
  have e3: "unsafeGet ''name'' m2 = Str ''John''" "unsafeGet ''id'' m2 = Str ''123''"
           "unsafeGet ''groups'' m2 = Undefined"
    using m2(2) n i g v by auto
  show ?thesis
    using d i e1 m1(1) e2 m2(1) e3 by blast
qed

section \<open>\<open>Field.generate\<close> and \<open>Field.isValid\<close> on values that are falsy or truthy\<close>

text \<open>
  C7, at the input where the code departs from it. A user is made with the empty string
  as its explicit id. The id field has a generator and the instance is new.
  \<open>Field.generate\<close> tests the existing value with \<open>if (value)\<close>, finds the empty string
  falsy, and so does not fail with \<open>FIELD_ALREADY_GENERATED\<close>: it generates and overwrites
  the value. \<open>Model.generate(['id'])\<close>, which tests \<open>=== undefined\<close>, leaves the instance
  as it is.
\<close>

theorem Field_generate_overwrites_falsy_value:
  "\<exists>m m'. make no_associations user_schema [(''id'', Str []), (''name'', Str ''Ann'')]
             Undefined store0 = Inr m
     \<and> unsafeGet ''id'' m = Str []
     \<and> Field_generate user_id ''id'' m = (Inr (), m')
     \<and> unsafeGet ''id'' m' = Str ''some-id''
     \<and> Model_generate (Some [''id'']) m = (Inr (), m)"
  by (simp add: init_defs example_defs field_op_defs Field_generate_def Model_generate_def
        isExisting_def)

text \<open>
  C8, at the input where the code departs from it. The email validator answers a failing
  value with a message, \<open>'must contain @'\<close>. \<open>Array.every\<close> takes that non-empty string for
  a pass, so \<open>Field.isValid\<close> returns true although the validator did not return
  \<open>true\<close>; \<open>Field.validate\<close>, which tests \<open>result !== true\<close>, reports the failure.
\<close>

theorem Field_isValid_accepts_message:
  "\<exists>m. make no_associations user_schema [(''email'', Str ''jane.example.org'')] Undefined store0
          = Inr m
     \<and> vd_fn contains_at (view m) (unsafeGet ''email'' m) = Returns (Str ''must contain @'')
     \<and> Field_isValid user_email ''email'' m = Inr True
     \<and> Field_validate user_email ''email'' m
          = Inr [\<lparr>e_code = FIELD_VALIDATOR_FAILED, e_field = ''email'', e_model = ''User'',
                  e_validator = ''containsAt''\<rparr>]"
  by (simp add: init_defs example_defs field_op_defs Field_isValid_def Field_validate_def
        validator_name_def)

section \<open>Null and fields that are not nullable\<close>
























section \<open>Value seeding\<close>

lemma getInitialValue_priority:
  "getInitialValue v opts isHydrating h =
     (if v \<noteq> Undefined then (Returns v, h)
      else if isHydrating then (Returns Undefined, h)
      else if truthy (default_value opts) then (Returns (default_value opts), h)
      else (case generator opts of
              None \<Rightarrow> (Returns Undefined, h)
            | Some g \<Rightarrow> if gn_lazy g then (Returns Undefined, h) else gn_fn g h))"
  by (simp add: getInitialValue_def getEagerGenerator_def split: option.splits)

text \<open>
  C2, at the input where the code departs from it. The user schema declares
  \<open>isActive: bool().default(false)\<close>. \<open>getInitialValue\<close> tests the default with
  \<open>if (options.default)\<close>, finds \<open>false\<close> falsy and passes on to the generator, of which
  there is none: \<open>make\<close> leaves the field uninitialized, and \<open>getChanges()\<close> has no entry
  for it, although a default is declared. (A truthy default is used, as
  \<open>getInitialValue_priority\<close> says.)
\<close>

theorem make_skips_falsy_default:
  "\<exists>m. make no_associations user_schema [(''name'', Str ''John'')] Undefined store0 = Inr m
     \<and> default_value (options user_isActive) = Bool False
     \<and> getInitialValue Undefined (options user_isActive) False store0 = (Returns Undefined, store0)
     \<and> unsafeGet ''isActive'' m = Undefined
     \<and> getChanges m = [(''name'', Str ''John''), (''id'', Str ''some-id'')]"
  by (simp add: init_defs example_defs field_op_defs getChanges_def getChangeLog_def)

section \<open>Association validation at construction\<close>

lemmas post_defs =
  post_author_def post_authorId_def post_reviewers_def post_schema_def post_registry_def
  store1_def register_def registry_key_def DEFAULT_FIELD_OPTIONS_def ann_post_def

lemma ann_post_made:
  "make post_registry post_schema [(''authorId'', Str ''u1''), (''author'', Ref 1)] Undefined store1
     = Inr ann_post"
  by (simp add: init_defs post_defs field_op_defs validateAssociation_def getValidator_def
        isLoaded_def association_validator_def resolvePath_def resolvePath_instance_def
        instance_member_def elems_def)

lemma isLoaded_defined:
  "v \<noteq> Undefined \<Longrightarrow> v \<noteq> Null \<Longrightarrow>
   isLoaded h v = Inr (get_member h v ''id'' \<noteq> Undefined
                        \<and> (case own_keys h v of None \<Rightarrow> False | Some ks \<Rightarrow> 1 < length ks))"
  by (simp add: isLoaded_def)

lemma association_loop_result:
  "\<forall>v \<in> set vs. v \<noteq> Undefined \<and> v \<noteq> Null \<Longrightarrow>
   association_loop paths m mn fn vs =
     Inr (map (\<lambda>v. association_invalid fn mn)
            (filter (\<lambda>v. isLoaded (heap m) v = Inr True \<and> \<not> association_validator paths m v) vs))"
  by (induction vs) (auto simp: isLoaded_defined association_invalid_def)

lemma validateField_parts:
  assumes "unsafeGet fieldName m \<noteq> Undefined"
      and "validate_loop (getEagerValidators (options f)) (view m) (unsafeGet fieldName m) fieldName
             (metadata_model f) = Inr ves"
  shows "(associate (options f) = None \<longrightarrow>
            validateField reg m fieldName f =
              Inr ((if unsafeGet fieldName m = Null \<and> \<not> nullable (options f)
                    then [not_nullable_error fieldName f] else []) @ ves))
       \<and> (associate (options f) \<noteq> None \<longrightarrow>
            validateAssociation reg m (metadata_model f) fieldName (unsafeGet fieldName m) = Inr aes \<longrightarrow>
            validateField reg m fieldName f =
              Inr ((if unsafeGet fieldName m = Null \<and> \<not> nullable (options f)
                    then [not_nullable_error fieldName f] else []) @ aes @ ves))"
  using assms by (simp add: validateField_def Let_def not_nullable_error_def)

text \<open>
  The association check in full: with a registered validator, one embedded value that is null
  or undefined ends it in a \<open>TypeError\<close> (\<open>isLoaded\<close> reads \<open>value.id\<close>); otherwise a value adds
  \<open>ASSOCIATION_INVALID\<close> exactly when it is loaded and fails the validator, and a value that
  is not loaded is passed over.
\<close>

lemma association_loop_null:
  "\<exists>v \<in> set vs. v = Undefined \<or> v = Null \<Longrightarrow>
   association_loop paths m mn fn vs = Inl TypeError"
proof (induction vs)
  case Nil
  then show ?case by simp
next
  case (Cons v vs)
  show ?case
  proof (cases "v = Undefined \<or> v = Null")
    case True
    then show ?thesis by (auto simp: isLoaded_def)
  next
    case False
    then have "\<exists>v \<in> set vs. v = Undefined \<or> v = Null" using Cons.prems by auto
    then have "association_loop paths m mn fn vs = Inl TypeError" by (rule Cons.IH)
    then show ?thesis using False by (simp add: isLoaded_def)
  qed
qed

lemma validateAssociation_result:
  assumes "getValidator reg modelName fieldName = Some paths"
  shows "validateAssociation reg m modelName fieldName fieldValue =
           (if \<exists>v \<in> set (association_values (heap m) fieldValue). v = Undefined \<or> v = Null
            then Inl TypeError
            else Inr (map (\<lambda>v. association_invalid fieldName modelName)
                   (filter (\<lambda>v. isLoaded (heap m) v = Inr True \<and> \<not> association_validator paths m v)
                      (association_values (heap m) fieldValue))))"
proof (cases "\<exists>v \<in> set (association_values (heap m) fieldValue). v = Undefined \<or> v = Null")
  case True
  have "association_loop paths m modelName fieldName (association_values (heap m) fieldValue)
          = Inl TypeError"
    by (rule association_loop_null [OF True])
  then show ?thesis
    using True assms by (simp add: validateAssociation_def association_values_def)
next
  case False
  then have "\<forall>v \<in> set (association_values (heap m) fieldValue). v \<noteq> Undefined \<and> v \<noteq> Null"
    by blast
  then have "association_loop paths m modelName fieldName (association_values (heap m) fieldValue)
          = Inr (map (\<lambda>v. association_invalid fieldName modelName)
                   (filter (\<lambda>v. isLoaded (heap m) v = Inr True \<and> \<not> association_validator paths m v)
                      (association_values (heap m) fieldValue)))"
    by (rule association_loop_result)
  then show ?thesis
    using False assms by (simp add: validateAssociation_def association_values_def)
qed

lemma validateField_type_error:
  assumes "unsafeGet fieldName m \<noteq> Undefined" and "associate (options f) \<noteq> None"
      and "validateAssociation reg m (metadata_model f) fieldName (unsafeGet fieldName m) = Inl e"
  shows "validateField reg m fieldName f = Inl e"
  using assms by (simp add: validateField_def Let_def)

lemmas draft_defs = draft_schema_def draft_registry_def post_editor_def

lemma isLoaded_object:
  "cell h x = HObj ps \<Longrightarrow>
   isLoaded h (Ref x) = Inr (obj_get ps ''id'' \<noteq> Undefined \<and> 1 < length ps)"
  by (simp add: isLoaded_def)

lemma getValidator_register:
  "getValidator (register a r) (a_sourceModel a) (a_fieldName a)
     = Some (a_sourcePath a, a_targetPath a)"
  by (simp add: getValidator_def register_def map_of_obj_set)

text \<open>
  The reviewers of Ann's post, four embedded users: the first and the last are loaded, only
  the last fails the validator, and the two that are not loaded are not checked.
\<close>

lemma reviewers_checked_when_loaded:
  "association_values (heap ann_post) (Ref 4) = [Ref 0, Ref 1, Ref 2, Ref 3]
   \<and> map (isLoaded (heap ann_post)) [Ref 0, Ref 1, Ref 2, Ref 3]
       = [Inr True, Inr False, Inr False, Inr True]
   \<and> map (association_validator (''authorId'', ''id'') ann_post) [Ref 0, Ref 1, Ref 2, Ref 3]
       = [True, False, False, False]
   \<and> validateAssociation post_registry ann_post ''Post'' ''reviewers'' (Ref 4)
       = Inr [association_invalid ''reviewers'' ''Post'']"
proof -
  have g: "getValidator post_registry ''Post'' ''reviewers'' = Some (''authorId'', ''id'')"
    by (simp add: getValidator_def post_defs)
  have vs: "association_values (heap ann_post) (Ref 4) = [Ref 0, Ref 1, Ref 2, Ref 3]"
    by (simp add: association_values_def post_defs cell_def elems_def)
  have ld: "map (isLoaded (heap ann_post)) [Ref 0, Ref 1, Ref 2, Ref 3]
              = [Inr True, Inr False, Inr False, Inr True]"
    by (simp add: isLoaded_def post_defs cell_def obj_get_def)
  have av: "map (association_validator (''authorId'', ''id'') ann_post)
              [Ref 0, Ref 1, Ref 2, Ref 3] = [True, False, False, False]"
    by (simp add: association_validator_def resolvePath_def resolvePath_instance_def
          instance_member_def post_defs cell_def obj_get_def)
  have va: "validateAssociation post_registry ann_post ''Post'' ''reviewers'' (Ref 4)
              = Inr [association_invalid ''reviewers'' ''Post'']"
    using validateAssociation_result [OF g, of ann_post "Ref 4"] ld av by (simp add: vs)
  show ?thesis using vs ld av va by blast
qed

text \<open>
  C10, at the input where the code departs from it. The schema declares a nullable field
  with an \<open>associate\<close> rule, and the association is registered. A post made with \<open>null\<close>
  for that field is not accepted: \<open>validateField\<close> hands the null to
  \<open>validateAssociation\<close>, whose \<open>isLoaded\<close> reads \<open>value.id\<close>, and \<open>make\<close> ends in a
  \<open>TypeError\<close>. The value has no defined \<open>id\<close>, so it is not loaded, and a value that is
  not loaded is to be accepted without the check, as the object \<open>{id: 'u2'}\<close> of cell 1 is
  on the same schema.
\<close>

theorem association_check_fails_on_null:
  "nullable (options post_editor)
   \<and> associate (options post_editor) = Some (''id'', ''authorId'')
   \<and> getValidator draft_registry ''Post'' ''editor'' = Some (''authorId'', ''id'')
   \<and> isLoaded store1 Null = Inl TypeError
   \<and> make draft_registry draft_schema [(''authorId'', Str ''u1''), (''editor'', Null)] Undefined
        store1 = Inl TypeError
   \<and> isLoaded store1 (Ref 1) = Inr False
   \<and> (\<exists>m. make draft_registry draft_schema [(''authorId'', Str ''u1''), (''editor'', Ref 1)]
              Undefined store1 = Inr m
          \<and> unsafeGet ''editor'' m = Ref 1)"
  by (simp add: init_defs post_defs draft_defs field_op_defs validateAssociation_def
        getValidator_def isLoaded_def association_validator_def resolvePath_def
        resolvePath_instance_def instance_member_def elems_def)

section \<open>Deep equality: \<open>Field.is\<close>\<close>

subsection \<open>The strings of numbers are distinct\<close>







subsection \<open>Sorting and comparing arrays of primitive values\<close>























subsection \<open>Objects, key for key\<close>











subsection \<open>Examples\<close>








text \<open>
  The default sort does not reorder an array of objects: every object has the string
  \<open>[object Object]\<close>. So \<open>[{a: 1}, {b: 2}]\<close> and \<open>[{b: 2}, {a: 1}]\<close> are compared in the order
  they are written, and are found different.
\<close>

lemma arrays_of_objects_keep_order:
  "isArrayEqual 3
     [HArr [Ref 2, Ref 3], HArr [Ref 3, Ref 2], HObj [(''a'', Num 1)], HObj [(''b'', Num 2)]]
     (Ref 0) (Ref 1)
   = Some (Inr False,
     [HArr [Ref 2, Ref 3], HArr [Ref 3, Ref 2], HObj [(''a'', Num 1)], HObj [(''b'', Num 2)]])"
  by code_simp

text \<open>
  An element that is null ends the comparison in a \<open>TypeError\<close>: \<open>typeof null\<close> is
  \<open>'object'\<close>, and \<open>isObjectEqual\<close> asks for the keys of null.
\<close>

lemma array_of_null_type_error:
  "isArrayEqual 2 [HArr [Null], HArr [Null]] (Ref 0) (Ref 1)
     = Some (Inl TypeError, [HArr [Null], HArr [Null]])"
  by code_simp




end
